theory Spec2Isabelle
  imports Complex_Main "HOL-Library.Sublist" "HOL-Library.Log_Nat"
begin

section \<open>Python strings\<close>

text \<open>
  A Python \<open>str\<close> is modelled as a \<^typ>\<open>string\<close>: a list of code points below 256.
  \<open>len(s)\<close> is \<^term>\<open>length s\<close>. The whitespace of \<open>str.split()\<close> and \<open>str.strip()\<close>
  is the set of code points \<open>c\<close> with \<open>chr(c).isspace()\<close>; below 256 these are
  9..13, 28..32, 133 and 160. The decimal digits matched by the regular expression
  \<open>\d\<close> below 256 are \<open>0\<close>..\<open>9\<close>.
\<close>

definition is_space :: "char \<Rightarrow> bool" where
  "is_space c =
     (let n = (of_char c :: nat)
      in (9 \<le> n \<and> n \<le> 13) \<or> (28 \<le> n \<and> n \<le> 32) \<or> n = 133 \<or> n = 160)"

definition is_digit :: "char \<Rightarrow> bool" where
  "is_digit c = (let n = (of_char c :: nat) in 48 \<le> n \<and> n \<le> 57)"

text \<open>\<open>s.split()\<close>: the maximal runs of non-whitespace characters, in order.\<close>

fun split_ws :: "string \<Rightarrow> string \<Rightarrow> string list" where
  "split_ws cur [] = (if cur = [] then [] else [cur])"
| "split_ws cur (c # cs) =
     (if is_space c then (if cur = [] then split_ws [] cs else cur # split_ws [] cs)
      else split_ws (cur @ [c]) cs)"

definition py_split :: "string \<Rightarrow> string list" where
  "py_split s = split_ws [] s"

text \<open>\<open>re.findall(r'\d+', s)\<close>: the maximal runs of decimal digits, in order.\<close>

fun findall_runs :: "string \<Rightarrow> string \<Rightarrow> string list" where
  "findall_runs cur [] = (if cur = [] then [] else [cur])"
| "findall_runs cur (c # cs) =
     (if is_digit c then findall_runs (cur @ [c]) cs
      else if cur = [] then findall_runs [] cs else cur # findall_runs [] cs)"

definition re_findall_digits :: "string \<Rightarrow> string list" where
  "re_findall_digits s = findall_runs [] s"

text \<open>
  \<open>s.split(sep)\<close> for a non-empty separator: the pieces between the non-overlapping
  occurrences of \<open>sep\<close>, scanned from the left; empty pieces are kept. Every call in the
  sources passes a non-empty literal (Python raises ValueError on an empty one).
\<close>

function split_sep :: "string \<Rightarrow> string \<Rightarrow> string \<Rightarrow> string list" where
  "split_sep sep cur s =
     (if s = [] then [cur]
      else if sep \<noteq> [] \<and> prefix sep s then cur # split_sep sep [] (drop (length sep) s)
      else split_sep sep (cur @ [hd s]) (tl s))"
  by pat_completeness auto
termination
  by (relation "measure (\<lambda>(sep, cur, s). length s)") auto

definition py_split_sep :: "string \<Rightarrow> string \<Rightarrow> string list" where
  "py_split_sep s sep = split_sep sep [] s"

text \<open>
  \<open>s.replace(old, new)\<close> for a non-empty \<open>old\<close>: every non-overlapping occurrence of
  \<open>old\<close>, scanned from the left, becomes \<open>new\<close>. Every call in the sources passes a
  non-empty literal.
\<close>

function py_replace :: "string \<Rightarrow> string \<Rightarrow> string \<Rightarrow> string" where
  "py_replace s old new =
     (if s = [] then []
      else if old \<noteq> [] \<and> prefix old s then new @ py_replace (drop (length old) s) old new
      else hd s # py_replace (tl s) old new)"
  by pat_completeness auto
termination
  by (relation "measure (\<lambda>(s, old, new). length s)") auto

declare split_sep.simps [simp del]
declare py_replace.simps [simp del]

definition nl :: string where
  "nl = [CHR 0x0A]"

section \<open>Python numbers\<close>

text \<open>
  A Python \<open>int\<close> is an \<^typ>\<open>int\<close>. A finite Python \<open>float\<close> (IEEE 754 binary64) is
  modelled by its exact rational value. \<open>float_round q\<close> is the binary64 number nearest
  to \<open>q\<close>, ties to the even significand: 53 significant bits, with the least exponent
  of the subnormal range. A result of magnitude \<open>2 ^ 1024\<close> or more is an overflow.
\<close>

datatype py_error = ZeroDivisionError | OverflowError

definition expo :: "rat \<Rightarrow> int" where
  "expo q = (let (a, b) = quotient_of q; d = bitlen a - bitlen b
             in if 2 powi d \<le> q then d else d - 1)"

definition round_half_even :: "rat \<Rightarrow> int" where
  "round_half_even x =
     (let f = \<lfloor>x\<rfloor>; r = x - of_int f
      in if r < 1 / 2 then f else if 1 / 2 < r then f + 1 else if even f then f else f + 1)"

definition float_round :: "rat \<Rightarrow> rat" where
  "float_round q =
     (if q = 0 then 0
      else let a = \<bar>q\<bar>; p = max (expo a) (- 1022) - 52
           in sgn q * of_int (round_half_even (a / 2 powi p)) * 2 powi p)"

definition float_overflow :: "rat \<Rightarrow> bool" where
  "float_overflow r = (2 ^ 1024 \<le> \<bar>r\<bar>)"

text \<open>\<open>a / b\<close> on two ints: the correctly rounded quotient, or an exception.\<close>

definition int_truediv :: "int \<Rightarrow> int \<Rightarrow> py_error + rat" where
  "int_truediv a b =
     (if b = 0 then Inl ZeroDivisionError
      else let r = float_round (of_int a / of_int b)
           in if float_overflow r then Inl OverflowError else Inr r)"

text \<open>\<open>float(n)\<close>, the conversion of an int operand in mixed arithmetic.\<close>

definition int_to_float :: "int \<Rightarrow> py_error + rat" where
  "int_to_float n =
     (let r = float_round (of_int n)
      in if float_overflow r then Inl OverflowError else Inr r)"

text \<open>
  \<open>round(x, 1)\<close> on a float: the exact value of \<open>x\<close> rounded to one decimal, ties to
  even, then the float nearest to that decimal.
\<close>

definition py_round1 :: "rat \<Rightarrow> rat" where
  "py_round1 x = float_round (of_int (round_half_even (x * 10)) / 10)"

section \<open>Confidence scoring\<close>

text \<open>\<open>calculate_confidence_score\<close> of research_handler.py.\<close>

definition calculate_confidence_score :: "string \<Rightarrow> string \<Rightarrow> int" where
  "calculate_confidence_score content section =
     (let confidence = 75;
          confidence = (if length content > 200 then confidence + 5
                        else if length content > 150 then confidence + 3
                        else confidence);
          numbers = re_findall_digits content;
          confidence = (if numbers \<noteq> [] then confidence + min (int (length numbers) * 2) 8
                        else confidence);
          confidence = (if CHR ''%'' \<in> set content then confidence + 5 else confidence);
          confidence = (if section = ''Key Statistics'' \<and> numbers \<noteq> [] then confidence + 5
                        else confidence);
          confidence = (if section = ''Overview'' \<and> length content > 100 then confidence + 3
                        else confidence)
      in max 70 (min 98 confidence))"

text \<open>\<open>calculate_chapter_confidence\<close> of book_generator.py; \<open>base_confidence\<close> defaults to 80.\<close>

definition calculate_chapter_confidence :: "string \<Rightarrow> int \<Rightarrow> int" where
  "calculate_chapter_confidence content base_confidence =
     (let confidence = base_confidence;
          word_count = length (py_split content);
          confidence = (if word_count > 300 then confidence + 5
                        else if word_count > 200 then confidence + 3
                        else confidence);
          paragraphs = py_split_sep content (nl @ nl);
          confidence = (if length paragraphs \<ge> 3 then confidence + 4 else confidence)
      in max 70 (min 95 confidence))"

section \<open>Text-generation providers\<close>

text \<open>
  The external services are oracles over an explicit world state \<open>'w\<close>: a call returns
  \<open>Some\<close> text, or \<open>None\<close> when it raises, and the next world. \<open>generate_with_bedrock\<close>
  (research_handler.py and book_generator.py define it alike, up to the request's token
  limit and temperature, which the oracle hides) wraps the prompt, strips the completion
  and raises on an empty one; \<open>generate_with_groq\<close> does the same with the chat message.
\<close>

type_synonym 'w provider = "string \<Rightarrow> 'w \<Rightarrow> string option \<times> 'w"

definition py_strip :: "string \<Rightarrow> string" where
  "py_strip s = rev (dropWhile is_space (rev (dropWhile is_space s)))"

fun py_join :: "string \<Rightarrow> string list \<Rightarrow> string" where
  "py_join sep [] = []"
| "py_join sep [x] = x"
| "py_join sep (x # y # ys) = x @ sep @ py_join sep (y # ys)"

definition generate_with_bedrock :: "'w provider \<Rightarrow> string \<Rightarrow> 'w \<Rightarrow> string option \<times> 'w" where
  "generate_with_bedrock invoke_model prompt w =
     (case invoke_model (nl @ nl @ ''Human: '' @ prompt @ nl @ nl @ ''Assistant:'') w of
        (None, w') \<Rightarrow> (None, w')
      | (Some completion, w') \<Rightarrow>
          (let content = py_strip completion
           in if content = [] then (None, w') else (Some content, w')))"

definition generate_with_groq :: "'w provider \<Rightarrow> string \<Rightarrow> 'w \<Rightarrow> string option \<times> 'w" where
  "generate_with_groq post prompt w =
     (case post prompt w of
        (None, w') \<Rightarrow> (None, w')
      | (Some message, w') \<Rightarrow>
          (let content = py_strip message
           in if content = [] then (None, w') else (Some content, w')))"

section \<open>Research stage (research_handler.py)\<close>

record research_item =
  "section" :: string
  details :: string
  confidence :: int
  source :: string

definition create_research_prompt :: "string \<Rightarrow> string \<Rightarrow> string" where
  "create_research_prompt topic sec =
     (if sec = ''Overview'' then
        ''Provide a comprehensive overview of '' @ topic @ ''. '' @ nl
        @ ''Include definition, key concepts, and current relevance. '' @ nl
        @ ''Be factual and concise (2-3 sentences).''
      else if sec = ''Key Statistics'' then
        ''Provide 2-3 key statistics about '' @ topic @ ''.'' @ nl
        @ ''Include recent data with specific numbers and percentages.'' @ nl
        @ ''Focus on market size, adoption rates, or growth trends.''
      else if sec = ''Advantages'' then
        ''List the main advantages and benefits of '' @ topic @ ''.'' @ nl
        @ ''Include 3-4 key benefits with brief explanations.'' @ nl
        @ ''Focus on practical, real-world benefits.''
      else if sec = ''Challenges'' then
        ''Describe the main challenges and limitations of '' @ topic @ ''.'' @ nl
        @ ''Include 3-4 significant challenges with brief context.'' @ nl
        @ ''Be balanced and objective.''
      else if sec = ''Future Outlook'' then
        ''Provide insights on the future prospects of '' @ topic @ ''.'' @ nl
        @ ''Include projections, trends, and expected developments.'' @ nl
        @ ''Focus on the next 5-10 years.''
      else if sec = ''Recommendations'' then
        ''Provide practical recommendations for someone considering '' @ topic @ ''.'' @ nl
        @ ''Include 3-4 actionable suggestions.'' @ nl
        @ ''Focus on evaluation criteria and best practices.''
      else ''Provide detailed information about '' @ sec @ '' for '' @ topic @ ''.'')"

text \<open>
  One pass of the loop body of \<open>generate_research\<close>: the entry appended for \<open>sec\<close> and
  the world after it. The outer \<open>try\<close> covers the Bedrock call, the inner one the Groq
  call; both handlers catch every exception.
\<close>

definition research_section ::
  "'w provider \<Rightarrow> 'w provider \<Rightarrow> string \<Rightarrow> string \<Rightarrow> 'w \<Rightarrow> research_item \<times> 'w" where
  "research_section invoke_model post topic sec w =
     (let prompt = create_research_prompt topic sec
      in case generate_with_bedrock invoke_model prompt w of
           (Some content, w1) \<Rightarrow>
             (\<lparr>section = sec, details = content,
               confidence = calculate_confidence_score content sec,
               source = ''bedrock''\<rparr>, w1)
         | (None, w1) \<Rightarrow>
             (case generate_with_groq post prompt w1 of
                (Some content, w2) \<Rightarrow>
                  (\<lparr>section = sec, details = content,
                    confidence = calculate_confidence_score content sec,
                    source = ''groq''\<rparr>, w2)
              | (None, w2) \<Rightarrow>
                  (\<lparr>section = sec,
                    details = ''Research data for '' @ sec
                      @ '' is currently unavailable. Please try again later.'',
                    confidence = 50,
                    source = ''fallback''\<rparr>, w2)))"

text \<open>The loop of \<open>generate_research\<close>, with the list built so far.\<close>

fun research_loop ::
  "'w provider \<Rightarrow> 'w provider \<Rightarrow> string \<Rightarrow> string list \<Rightarrow> research_item list \<Rightarrow> 'w
   \<Rightarrow> research_item list \<times> 'w" where
  "research_loop invoke_model post topic [] research_results w = (research_results, w)"
| "research_loop invoke_model post topic (sec # secs) research_results w =
     (case research_section invoke_model post topic sec w of
        (item, w') \<Rightarrow> research_loop invoke_model post topic secs (research_results @ [item]) w')"

definition generate_research ::
  "'w provider \<Rightarrow> 'w provider \<Rightarrow> string \<Rightarrow> string list \<Rightarrow> 'w \<Rightarrow> research_item list \<times> 'w" where
  "generate_research invoke_model post topic sections w =
     research_loop invoke_model post topic sections [] w"

text \<open>The world in which the loop reaches the section of index \<open>i\<close>.\<close>

definition world_before ::
  "'w provider \<Rightarrow> 'w provider \<Rightarrow> string \<Rightarrow> string list \<Rightarrow> nat \<Rightarrow> 'w \<Rightarrow> 'w" where
  "world_before invoke_model post topic sections i w =
     snd (research_loop invoke_model post topic (take i sections) [] w)"

section \<open>Book stage (book_generator.py)\<close>

text \<open>
  The dictionaries of the book stage as records. The research items are those the
  research stage builds, with every key present. The \<open>timestamp\<close> of a book, read from
  the clock, is left out.
\<close>

record chapter_section =
  sub_section_title :: string
  sub_content :: string
  sub_confidence :: int

record book_chapter =
  ch_chapter_number :: int
  ch_title :: string
  ch_content :: string
  ch_word_count :: nat
  ch_confidence :: int
  ch_sections :: "chapter_section list"

record toc_entry =
  toc_chapter_number :: int
  toc_title :: string
  toc_page :: int

record book =
  book_title :: string
  book_topic :: string
  book_author :: string
  book_chapters :: "book_chapter list"
  book_table_of_contents :: "toc_entry list"
  book_word_count :: nat
  book_average_confidence :: rat

definition introduction_prompt :: "string \<Rightarrow> string" where
  "introduction_prompt topic =
     ''Write a compelling introduction for a comprehensive guide about '' @ topic @ ''.'' @ nl
     @ nl
     @ ''The introduction should:'' @ nl
     @ ''1. Capture reader interest with a strong opening'' @ nl
     @ ''2. Explain why '' @ topic @ '' is important and relevant'' @ nl
     @ ''3. Outline what readers will learn from this guide'' @ nl
     @ ''4. Set expectations for the depth and breadth of coverage'' @ nl
     @ nl
     @ ''Write 3-4 paragraphs in a professional yet accessible tone.''"

definition generate_introduction ::
  "'w provider \<Rightarrow> string \<Rightarrow> research_item list \<Rightarrow> 'w \<Rightarrow> book_chapter \<times> 'w" where
  "generate_introduction invoke_model topic research_data w =
     (case generate_with_bedrock invoke_model (introduction_prompt topic) w of
        (Some content, w') \<Rightarrow>
          (\<lparr>ch_chapter_number = 1, ch_title = ''Introduction'', ch_content = content,
            ch_word_count = length (py_split content),
            ch_confidence = calculate_chapter_confidence content 80,
            ch_sections = []\<rparr>, w')
      | (None, w') \<Rightarrow>
          (\<lparr>ch_chapter_number = 1, ch_title = ''Introduction'',
            ch_content = ''This comprehensive guide explores '' @ topic @ '' in detail, ''
              @ ''providing insights, analysis, and practical information.'',
            ch_word_count = 15,
            ch_confidence = 70,
            ch_sections = []\<rparr>, w'))"

definition chapter_prompt :: "string \<Rightarrow> string \<Rightarrow> string \<Rightarrow> string" where
  "chapter_prompt topic title research_content =
     ''Expand the following research insight into a comprehensive book chapter.'' @ nl
     @ nl
     @ ''Topic: '' @ topic @ nl
     @ ''Chapter Title: '' @ title @ nl
     @ ''Research Content: '' @ research_content @ nl
     @ nl
     @ ''Create a detailed chapter that:'' @ nl
     @ ''1. Opens with context and relevance'' @ nl
     @ ''2. Expands on key points with explanations'' @ nl
     @ ''3. Includes practical examples where appropriate'' @ nl
     @ ''4. Maintains a professional yet accessible tone'' @ nl
     @ ''5. Concludes with key takeaways'' @ nl
     @ nl
     @ ''Write 4-6 paragraphs. Be informative and engaging.''"

definition generate_chapter ::
  "'w provider \<Rightarrow> int \<Rightarrow> string \<Rightarrow> string \<Rightarrow> string \<Rightarrow> int \<Rightarrow> 'w \<Rightarrow> book_chapter \<times> 'w" where
  "generate_chapter invoke_model chapter_number title research_content topic base_confidence w =
     (case generate_with_bedrock invoke_model (chapter_prompt topic title research_content) w of
        (Some content, w') \<Rightarrow>
          (let word_count = length (py_split content);
               conf = calculate_chapter_confidence content base_confidence
           in (\<lparr>ch_chapter_number = chapter_number, ch_title = title, ch_content = content,
                ch_word_count = word_count,
                ch_confidence = conf,
                ch_sections =
                  [\<lparr>sub_section_title = title, sub_content = content, sub_confidence = conf\<rparr>]\<rparr>,
               w'))
      | (None, w') \<Rightarrow>
          (\<lparr>ch_chapter_number = chapter_number, ch_title = title,
            ch_content = research_content,
            ch_word_count = length (py_split research_content),
            ch_confidence = max (base_confidence - 10) 60,
            ch_sections = []\<rparr>, w'))"

definition conclusion_prompt :: "string \<Rightarrow> string list \<Rightarrow> string" where
  "conclusion_prompt topic sections =
     ''Write a comprehensive conclusion for a guide about '' @ topic @ ''.'' @ nl
     @ nl
     @ ''The guide covered these topics:'' @ nl
     @ py_join '', '' sections @ nl
     @ nl
     @ ''The conclusion should:'' @ nl
     @ ''1. Synthesize key insights from throughout the guide'' @ nl
     @ ''2. Emphasize the most important takeaways'' @ nl
     @ ''3. Provide forward-looking perspective'' @ nl
     @ ''4. End with actionable recommendations'' @ nl
     @ nl
     @ ''Write 3-4 paragraphs that bring the guide to a strong close.''"

definition generate_conclusion ::
  "'w provider \<Rightarrow> string \<Rightarrow> research_item list \<Rightarrow> 'w \<Rightarrow> book_chapter \<times> 'w" where
  "generate_conclusion invoke_model topic research_data w =
     (let sections = map section research_data
      in case generate_with_bedrock invoke_model (conclusion_prompt topic sections) w of
           (Some content, w') \<Rightarrow>
             (\<lparr>ch_chapter_number = 99, ch_title = ''Conclusion'', ch_content = content,
               ch_word_count = length (py_split content),
               ch_confidence = calculate_chapter_confidence content 80,
               ch_sections = []\<rparr>, w')
         | (None, w') \<Rightarrow>
             (\<lparr>ch_chapter_number = 99, ch_title = ''Conclusion'',
               ch_content = ''This guide has explored '' @ topic @ '' from multiple angles, ''
                 @ ''providing comprehensive insights and practical information.'',
               ch_word_count = 15,
               ch_confidence = 70,
               ch_sections = []\<rparr>, w'))"

text \<open>
  The loop of \<open>generate_book\<close> over the research items: the chapters and the table of
  contents built so far, the next chapter number, and the world.
\<close>

fun book_loop ::
  "'w provider \<Rightarrow> string \<Rightarrow> research_item list \<Rightarrow> int \<Rightarrow> book_chapter list \<Rightarrow> toc_entry list \<Rightarrow> 'w
   \<Rightarrow> (book_chapter list \<times> toc_entry list \<times> int) \<times> 'w" where
  "book_loop invoke_model topic [] chapter_number chapters toc w =
     ((chapters, toc, chapter_number), w)"
| "book_loop invoke_model topic (research_item # items) chapter_number chapters toc w =
     (let section_name = section research_item;
          section_details = details research_item;
          conf = confidence research_item
      in case generate_chapter invoke_model chapter_number section_name section_details
                topic conf w of
           (chapter, w') \<Rightarrow>
             book_loop invoke_model topic items (chapter_number + 1)
               (chapters @ [chapter])
               (toc @ [\<lparr>toc_chapter_number = chapter_number, toc_title = section_name,
                        toc_page = chapter_number\<rparr>])
               w')"

definition generate_book ::
  "'w provider \<Rightarrow> string \<Rightarrow> research_item list \<Rightarrow> string \<Rightarrow> 'w \<Rightarrow> (py_error + book) \<times> 'w" where
  "generate_book invoke_model topic research_data title w =
     (case generate_introduction invoke_model topic research_data w of
        (intro_chapter, w1) \<Rightarrow>
     (case book_loop invoke_model topic research_data 2 [intro_chapter]
             [\<lparr>toc_chapter_number = 1, toc_title = ''Introduction'', toc_page = 1\<rparr>] w1 of
        ((chapters, toc, chapter_number), w2) \<Rightarrow>
     (case generate_conclusion invoke_model topic research_data w2 of
        (conclusion_chapter, w3) \<Rightarrow>
     (let chapters = chapters @ [conclusion_chapter];
          toc = toc @ [\<lparr>toc_chapter_number = chapter_number, toc_title = ''Conclusion'',
                         toc_page = chapter_number\<rparr>];
          word_count = sum_list (map ch_word_count chapters);
          confidences = map ch_confidence chapters
      in case int_truediv (sum_list confidences) (int (length confidences)) of
           Inl e \<Rightarrow> (Inl e, w3)
         | Inr average \<Rightarrow>
             (Inr \<lparr>book_title = title, book_topic = topic,
                   book_author = ''AI Research Assistant'',
                   book_chapters = chapters,
                   book_table_of_contents = toc,
                   book_word_count = word_count,
                   book_average_confidence = py_round1 average\<rparr>, w3)))))"

section \<open>Audiobook stage (audiobook_generator.py)\<close>

text \<open>The loop of \<open>split_text_into_chunks\<close> over the sentences.\<close>

fun pack_sentences :: "int \<Rightarrow> string list \<Rightarrow> string list \<Rightarrow> string \<Rightarrow> string list \<times> string" where
  "pack_sentences max_size [] chunks current_chunk = (chunks, current_chunk)"
| "pack_sentences max_size (sentence # rest) chunks current_chunk =
     (if int (length current_chunk) + int (length sentence) \<le> max_size
      then pack_sentences max_size rest chunks (current_chunk @ sentence)
      else pack_sentences max_size rest
             (if current_chunk \<noteq> [] then chunks @ [current_chunk] else chunks) sentence)"

definition sentences_of :: "string \<Rightarrow> string list" where
  "sentences_of text =
     py_split_sep
       (py_replace (py_replace (py_replace text ''! '' ''!|'') ''? '' ''?|'') ''. '' ''.|'')
       ''|''"

definition split_text_into_chunks :: "string \<Rightarrow> int \<Rightarrow> string list" where
  "split_text_into_chunks text max_size =
     (if int (length text) \<le> max_size then [text]
      else case pack_sentences max_size (sentences_of text) [] [] of
             (chunks, current_chunk) \<Rightarrow>
               if current_chunk \<noteq> [] then chunks @ [current_chunk] else chunks)"

text \<open>
  \<open>estimate_audio_duration\<close>: \<open>word_count / words_per_minute\<close> is a float division, the
  product with 60 is rounded again, and \<open>int\<close> truncates it (towards zero; the value is
  never negative). A product that overflows is \<open>inf\<close>, on which \<open>int\<close> raises
  OverflowError.
\<close>

definition estimate_audio_duration :: "string \<Rightarrow> py_error + int" where
  "estimate_audio_duration text =
     (let word_count = int (length (py_split text));
          words_per_minute = 150
      in case int_truediv word_count words_per_minute of
           Inl e \<Rightarrow> Inl e
         | Inr duration_minutes \<Rightarrow>
             (let seconds = float_round (duration_minutes * 60)
              in if float_overflow seconds then Inl OverflowError else Inr \<lfloor>seconds\<rfloor>))"

record audio_info =
  audio_chapter_number :: int
  audio_chapter_title :: string
  audio_s3_key :: string
  audio_file_size_bytes :: nat
  audio_estimated_duration_seconds :: int
  audio_voice :: string
  audio_confidence :: "int option"

text \<open>
  The result dictionary of \<open>generate_chapter_audio\<close>: success with the audio info and
  the duration, or failure (with duration 0; the error text is left out).
\<close>

datatype audio_result = AudioSuccess audio_info int | AudioFailure

text \<open>
  The services of the audiobook stage: text-to-speech on one chunk for a voice, the
  upload of an audio file (topic, chapter number, chapter title, user id) giving its key,
  and the size of an audio file. \<open>'a\<close> is the type of audio files.
\<close>

type_synonym ('a, 'w) tts = "string \<Rightarrow> string \<Rightarrow> 'w \<Rightarrow> 'a option \<times> 'w"
type_synonym ('a, 'w) uploader =
  "'a \<Rightarrow> string \<Rightarrow> int \<Rightarrow> string \<Rightarrow> string \<Rightarrow> 'w \<Rightarrow> string option \<times> 'w"

fun tts_loop :: "('a, 'w) tts \<Rightarrow> string \<Rightarrow> string list \<Rightarrow> 'a list \<Rightarrow> 'w \<Rightarrow> 'a list option \<times> 'w" where
  "tts_loop speech voice [] audio_chunks w = (Some audio_chunks, w)"
| "tts_loop speech voice (chunk # rest) audio_chunks w =
     (case speech voice chunk w of
        (None, w') \<Rightarrow> (None, w')
      | (Some audio, w') \<Rightarrow> tts_loop speech voice rest (audio_chunks @ [audio]) w')"

text \<open>\<open>combine_audio_chunks\<close> is called with more than one file only.\<close>

definition combine_audio_chunks :: "'a list \<Rightarrow> 'a option" where
  "combine_audio_chunks audio_files = (case audio_files of [] \<Rightarrow> None | f # _ \<Rightarrow> Some f)"

text \<open>
  \<open>generate_chapter_audio\<close>. Every exception inside it is caught and gives the failure
  result. With more than one chunk the combined file is the first chunk's file, and the
  clean-up loop removes every chunk file before the upload opens the combined one: the file
  is gone (\<open>present = False\<close>), \<open>open\<close> raises, and nothing is uploaded. With no chunk at
  all \<open>audio_chunks[0]\<close> raises IndexError.
\<close>

definition generate_chapter_audio ::
  "('a, 'w) tts \<Rightarrow> ('a, 'w) uploader \<Rightarrow> ('a \<Rightarrow> nat)
   \<Rightarrow> int \<Rightarrow> string \<Rightarrow> string \<Rightarrow> string \<Rightarrow> string \<Rightarrow> string \<Rightarrow> int option \<Rightarrow> 'w
   \<Rightarrow> audio_result \<times> 'w" where
  "generate_chapter_audio speech upload getsize
       chapter_number chapter_title text topic voice user_id conf w =
     (let max_chunk_size = 9500;
          text_chunks = split_text_into_chunks text max_chunk_size
      in case tts_loop speech voice text_chunks [] w of
           (None, w1) \<Rightarrow> (AudioFailure, w1)
         | (Some audio_chunks, w1) \<Rightarrow>
             (case (if length audio_chunks > 1
                    then (combine_audio_chunks audio_chunks, False)
                    else (case audio_chunks of [] \<Rightarrow> None | f # _ \<Rightarrow> Some f, True)) of
                (None, present) \<Rightarrow> (AudioFailure, w1)
              | (Some final_audio_file, present) \<Rightarrow>
                  if \<not> present then (AudioFailure, w1)
                  else
                  (case upload final_audio_file topic chapter_number chapter_title user_id w1 of
                     (None, w2) \<Rightarrow> (AudioFailure, w2)
                   | (Some s3_key, w2) \<Rightarrow>
                       (let file_size = getsize final_audio_file
                        in case estimate_audio_duration text of
                             Inl e \<Rightarrow> (AudioFailure, w2)
                           | Inr estimated_duration \<Rightarrow>
                               (AudioSuccess
                                  \<lparr>audio_chapter_number = chapter_number,
                                   audio_chapter_title = chapter_title,
                                   audio_s3_key = s3_key,
                                   audio_file_size_bytes = file_size,
                                   audio_estimated_duration_seconds = estimated_duration,
                                   audio_voice = voice,
                                   audio_confidence = conf\<rparr>
                                  estimated_duration, w2)))))"

section \<open>Quality gate (orchestrator.py)\<close>

record distribution =
  dist_high :: int
  dist_medium :: int
  dist_low :: int

text \<open>
  The dictionary \<open>_validate_research_quality\<close> returns; \<open>confidence_distribution\<close> is
  \<open>None\<close> when the dictionary has no such key.
\<close>

record verdict =
  acceptable :: bool
  average_confidence :: rat
  total_sections :: nat
  high_confidence_count :: int
  confidence_distribution :: "distribution option"

text \<open>
  \<open>_validate_research_quality\<close>, with \<open>self.min_confidence\<close> as a parameter and
  \<open>research_data['results']\<close> as the list of research items. \<open>and\<close> evaluates its right
  operand only when the left one holds; \<open>len(results) * 0.5\<close> converts the length to a
  float first; comparisons between ints and floats are exact.
\<close>

definition validate_research_quality :: "rat \<Rightarrow> research_item list \<Rightarrow> py_error + verdict" where
  "validate_research_quality min_confidence results =
     (if results = [] then
        Inr \<lparr>acceptable = False, average_confidence = 0, total_sections = 0,
             high_confidence_count = 0, confidence_distribution = None\<rparr>
      else
        let confidences = map confidence results
        in case int_truediv (sum_list confidences) (int (length confidences)) of
             Inl e \<Rightarrow> Inl e
           | Inr average \<Rightarrow>
               (let high_confidence = sum_list (map (\<lambda>c. 1) (filter (\<lambda>c. 85 \<le> c) confidences))
                in case (if min_confidence \<le> average
                         then (case int_to_float (int (length results)) of
                                 Inl e \<Rightarrow> Inl e
                               | Inr n \<Rightarrow> Inr (float_round (n * (1 / 2)) \<le> of_int high_confidence))
                         else Inr False) of
                     Inl e \<Rightarrow> Inl e
                   | Inr ok \<Rightarrow>
                       Inr \<lparr>acceptable = ok,
                            average_confidence = py_round1 average,
                            total_sections = length results,
                            high_confidence_count = high_confidence,
                            confidence_distribution = Some
                              \<lparr>dist_high = high_confidence,
                               dist_medium = sum_list (map (\<lambda>c. 1)
                                 (filter (\<lambda>c. 70 \<le> c \<and> c < 85) confidences)),
                               dist_low = sum_list (map (\<lambda>c. 1)
                                 (filter (\<lambda>c. c < 70) confidences))\<rparr>\<rparr>))"

section \<open>Sample inputs\<close>

text \<open>
  A research result of one section, and the book \<open>generate_book\<close> builds from it for the
  topic "AI" and the title "Guide" when every generation call fails.
\<close>

definition demo_item :: research_item where
  "demo_item = \<lparr>section = ''Overview'', details = ''AI is broad.'', confidence = 90, source = ''bedrock''\<rparr>"

definition demo_book :: book where
  "demo_book =
     \<lparr>book_title = ''Guide'', book_topic = ''AI'', book_author = ''AI Research Assistant'',
      book_chapters =
        [\<lparr>ch_chapter_number = 1, ch_title = ''Introduction'',
          ch_content = ''This comprehensive guide explores AI in detail, providing insights, analysis, and practical information.'',
          ch_word_count = 15, ch_confidence = 70, ch_sections = []\<rparr>,
         \<lparr>ch_chapter_number = 2, ch_title = ''Overview'', ch_content = ''AI is broad.'',
          ch_word_count = 3, ch_confidence = 80, ch_sections = []\<rparr>,
         \<lparr>ch_chapter_number = 99, ch_title = ''Conclusion'',
          ch_content = ''This guide has explored AI from multiple angles, providing comprehensive insights and practical information.'',
          ch_word_count = 15, ch_confidence = 70, ch_sections = []\<rparr>],
      book_table_of_contents =
        [\<lparr>toc_chapter_number = 1, toc_title = ''Introduction'', toc_page = 1\<rparr>,
         \<lparr>toc_chapter_number = 2, toc_title = ''Overview'', toc_page = 2\<rparr>,
         \<lparr>toc_chapter_number = 3, toc_title = ''Conclusion'', toc_page = 3\<rparr>],
      book_word_count = 33,
      book_average_confidence = 5158028948222771 / 70368744177664\<rparr>"

text \<open>A text of 150 words, and research results with given confidences.\<close>

definition words150 :: string where
  "words150 = concat (replicate 150 ''a '')"

definition items_of :: "int list \<Rightarrow> research_item list" where
  "items_of cs =
     map (\<lambda>c. \<lparr>section = ''Overview'', details = ''Data.'', confidence = c,
               source = ''bedrock''\<rparr>) cs"

section \<open>The formulas of the specification\<close>

text \<open>
  The duration estimate in the specification's words,
  \<open>round(word_count(text) / 150 * 60)\<close>: the same float quotient and product, with
  Python's \<open>round\<close> (to the nearest integer, ties to even) where the code has \<open>int\<close>.
\<close>

definition spec_duration :: "string \<Rightarrow> py_error + int" where
  "spec_duration text =
     (case int_truediv (int (length (py_split text))) 150 of
        Inl e \<Rightarrow> Inl e
      | Inr duration_minutes \<Rightarrow>
          (let seconds = float_round (duration_minutes * 60)
           in if float_overflow seconds then Inl OverflowError
              else Inr (round_half_even seconds)))"

text \<open>The arithmetic mean of the sections' confidence values, as an exact rational.\<close>

definition spec_mean :: "research_item list \<Rightarrow> rat" where
  "spec_mean results = of_int (sum_list (map confidence results)) / of_nat (length results)"

section \<open>Properties\<close>

lemma clamp98: "70 \<le> max 70 (min 98 (x::int)) \<and> max 70 (min 98 x) \<le> 98"
  by simp

lemma clamp95: "70 \<le> max 70 (min 95 (x::int)) \<and> max 70 (min 95 x) \<le> 95"
  by simp

lemma calculate_confidence_score_range:
  "70 \<le> calculate_confidence_score content sec
   \<and> calculate_confidence_score content sec \<le> 98"
  unfolding calculate_confidence_score_def Let_def by (rule clamp98)

lemma calculate_chapter_confidence_range:
  "70 \<le> calculate_chapter_confidence content base
   \<and> calculate_chapter_confidence content base \<le> 95"
  unfolding calculate_chapter_confidence_def Let_def by (rule clamp95)

text \<open>
  C6: for every content and section name the research scorer returns an integer in
  [70, 98], and for every content and base the chapter scorer returns an integer in
  [70, 95].
\<close>

theorem confidence_scores_bounded:
  "70 \<le> calculate_confidence_score content sec
   \<and> calculate_confidence_score content sec \<le> 98
   \<and> 70 \<le> calculate_chapter_confidence content base
   \<and> calculate_chapter_confidence content base \<le> 95"
  using calculate_confidence_score_range [of content sec]
    calculate_chapter_confidence_range [of content base]
  by blast

subsection \<open>Rounding to binary64\<close>

lemma powi2_pos: "0 < (2::rat) powi n"
  by simp

lemma powi2_less_imp: "(2::rat) powi m < 2 powi n \<Longrightarrow> m < n"
proof (rule ccontr)
  assume lt: "(2::rat) powi m < 2 powi n" and "\<not> m < n"
  then have "n \<le> m" by simp
  then have "(2::rat) powi n \<le> 2 powi m"
    by (intro power_int_increasing) simp_all
  with lt show False by simp
qed

lemma powi2_mono: "m \<le> n \<Longrightarrow> (2::rat) powi m \<le> 2 powi n"
  by (intro power_int_increasing) simp_all

lemma powi2_add: "(2::rat) powi (m + n) = 2 powi m * 2 powi n"
  by (simp add: power_int_add)

lemma powi2_diff: "(2::rat) powi (m - n) = 2 powi m / 2 powi n"
  by (simp add: power_int_diff)

lemma round_half_even_error: "\<bar>of_int (round_half_even x) - x\<bar> \<le> 1 / 2"
proof -
  have "of_int \<lfloor>x\<rfloor> \<le> x" "x < of_int \<lfloor>x\<rfloor> + 1"
    by linarith+
  then show ?thesis
    by (auto simp: round_half_even_def Let_def abs_le_iff) 
qed

lemma round_half_even_of_int: "round_half_even (of_int z) = z"
  by (simp add: round_half_even_def)

lemma expo_bounds:
  assumes "0 < q"
  shows "2 powi (expo q) \<le> q" and "q < 2 powi (expo q + 1)"
proof -
  obtain a b where ab: "quotient_of q = (a, b)"
    by (cases "quotient_of q")
  have b: "0 < b" using ab by (rule quotient_of_denom_pos)
  have q: "q = of_int a / of_int b" using ab by (rule quotient_of_div)
  have a: "0 < a"
    using assms b q by (simp add: zero_less_divide_iff)
  define la where "la = bitlen a"
  define lb where "lb = bitlen b"
  have la: "1 \<le> la" "(2::int) ^ nat (la - 1) \<le> a" "a < 2 ^ nat la"
    using a bitlen_bounds [of a] bitlen_eq_zero_iff [of a] bitlen_nonneg [of a]
    by (auto simp: la_def)
  have lb: "1 \<le> lb" "(2::int) ^ nat (lb - 1) \<le> b" "b < 2 ^ nat lb"
    using b bitlen_bounds [of b] bitlen_eq_zero_iff [of b] bitlen_nonneg [of b]
    by (auto simp: lb_def)
  have ra: "(2::rat) powi (la - 1) \<le> of_int a" "of_int a < (2::rat) powi la"
  proof -
    have "(of_int ((2::int) ^ nat (la - 1)) :: rat) \<le> of_int a"
      using la(2) by (simp only: of_int_le_iff)
    then show "(2::rat) powi (la - 1) \<le> of_int a"
      using la(1) by (simp add: power_int_def)
    have "(of_int a :: rat) < of_int ((2::int) ^ nat la)"
      using la(3) by (simp only: of_int_less_iff)
    then show "of_int a < (2::rat) powi la"
      using la(1) by (simp add: power_int_def)
  qed
  have rb: "(2::rat) powi (lb - 1) \<le> of_int b" "of_int b < (2::rat) powi lb"
  proof -
    have "(of_int ((2::int) ^ nat (lb - 1)) :: rat) \<le> of_int b"
      using lb(2) by (simp only: of_int_le_iff)
    then show "(2::rat) powi (lb - 1) \<le> of_int b"
      using lb(1) by (simp add: power_int_def)
    have "(of_int b :: rat) < of_int ((2::int) ^ nat lb)"
      using lb(3) by (simp only: of_int_less_iff)
    then show "of_int b < (2::rat) powi lb"
      using lb(1) by (simp add: power_int_def)
  qed
  have bpos: "(0::rat) < of_int b" using b by simp
  have apos: "(0::rat) < of_int a" using a by simp
  have up: "q < 2 powi (la - lb + 1)"
  proof -
    have "q * of_int b = (of_int a :: rat)" using q bpos by simp
    also have "\<dots> < 2 powi la" by (rule ra(2))
    also have "\<dots> = 2 powi (la - lb + 1) * 2 powi (lb - 1)"
      by (simp flip: powi2_add)
    also have "\<dots> \<le> 2 powi (la - lb + 1) * of_int b"
      using rb(1) by (intro mult_left_mono) simp_all
    finally show ?thesis using bpos by simp
  qed
  have low: "2 powi (la - lb - 1) < q"
  proof -
    have "(2::rat) powi (la - lb - 1) * of_int b < 2 powi (la - lb - 1) * 2 powi lb"
      using rb(2) by (intro mult_strict_left_mono) simp_all
    also have "\<dots> = 2 powi (la - 1)"
      by (simp flip: powi2_add)
    also have "\<dots> \<le> of_int a" by (rule ra(1))
    also have "\<dots> = q * of_int b" using q bpos by simp
    finally show ?thesis using bpos by simp
  qed
  have e: "expo q = (if 2 powi (la - lb) \<le> q then la - lb else la - lb - 1)"
    by (simp add: expo_def ab la_def lb_def Let_def)
  show "2 powi (expo q) \<le> q"
    using e low by (auto simp: less_imp_le)
  show "q < 2 powi (expo q + 1)"
    using e up by (auto simp: not_le)
qed

lemma float_round_pos:
  assumes "0 < q"
  shows "float_round q =
           of_int (round_half_even (q / 2 powi (max (expo q) (- 1022) - 52)))
           * 2 powi (max (expo q) (- 1022) - 52)"
  using assms by (simp add: float_round_def Let_def)

lemma float_round_minus: "float_round (- q) = - float_round q"
  by (simp add: float_round_def Let_def)

lemma float_round_error:
  assumes "0 < q"
  shows "\<bar>float_round q - q\<bar> \<le> 2 powi (max (expo q) (- 1022) - 53)"
proof -
  define p where "p = max (expo q) (- 1022) - 52"
  define n where "n = round_half_even (q / 2 powi p)"
  have fr: "float_round q = of_int n * 2 powi p"
    using float_round_pos [OF assms] by (simp add: n_def p_def)
  have "\<bar>of_int n - q / 2 powi p\<bar> \<le> 1 / 2"
    unfolding n_def by (rule round_half_even_error)
  then have "\<bar>of_int n - q / 2 powi p\<bar> * 2 powi p \<le> 1 / 2 * 2 powi p"
    by (intro mult_right_mono) simp_all
  moreover have "\<bar>of_int n - q / 2 powi p\<bar> * 2 powi p = \<bar>of_int n * 2 powi p - q\<bar>"
  proof -
    have "\<bar>of_int n - q / 2 powi p\<bar> * 2 powi p = \<bar>(of_int n - q / 2 powi p) * 2 powi p\<bar>"
      by (simp add: abs_mult)
    also have "(of_int n - q / 2 powi p) * 2 powi p = of_int n * 2 powi p - q"
      by (simp add: left_diff_distrib)
    finally show ?thesis .
  qed
  moreover have "1 / 2 * (2::rat) powi p = 2 powi (p - 1)"
    by (simp add: powi2_diff)
  ultimately have "\<bar>float_round q - q\<bar> \<le> 2 powi (p - 1)"
    using fr by simp
  moreover have "p - 1 = max (expo q) (- 1022) - 53" by (simp add: p_def)
  ultimately show ?thesis by simp
qed

lemma float_round_rel:
  assumes "2 powi (- 1022) \<le> q"
  shows "\<bar>float_round q - q\<bar> \<le> q * 2 powi (- 53)"
proof -
  have q: "0 < q"
    using assms powi2_pos [of "- 1022"] by linarith
  have "(2::rat) powi (- 1022) < 2 powi (expo q + 1)"
    using assms expo_bounds(2) [OF q] by linarith
  then have "- 1022 < expo q + 1" by (rule powi2_less_imp)
  then have m: "max (expo q) (- 1022) = expo q" by simp
  have "\<bar>float_round q - q\<bar> \<le> 2 powi (expo q - 53)"
    using float_round_error [OF q] m by simp
  also have "\<dots> = 2 powi (expo q) * 2 powi (- 53)"
    using powi2_add [of "expo q" "- 53"] by simp
  also have "\<dots> \<le> q * 2 powi (- 53)"
    using expo_bounds(1) [OF q] by (intro mult_right_mono) simp_all
  finally show ?thesis .
qed

lemma float_round_bound_pos:
  assumes "0 < q"
  shows "\<bar>float_round q\<bar> \<le> 2 * q + 1"
proof -
  have "(2::rat) powi (max (expo q) (- 1022) - 53) \<le> q + 1"
  proof (cases "expo q \<le> - 1022")
    case True
    then have "max (expo q) (- 1022) - 53 = - 1075" by simp
    moreover have "(2::rat) powi (- 1075) \<le> 2 powi 0"
      by (rule powi2_mono) simp
    ultimately show ?thesis using assms by simp
  next
    case False
    then have "max (expo q) (- 1022) - 53 = expo q - 53" by simp
    moreover have "(2::rat) powi (expo q - 53) \<le> 2 powi (expo q)"
      by (rule powi2_mono) simp
    ultimately show ?thesis using expo_bounds(1) [OF assms] by simp
  qed
  then show ?thesis
    using float_round_error [OF assms] assms by (simp add: abs_le_iff)
qed

lemma float_round_bound: "\<bar>float_round q\<bar> \<le> 2 * \<bar>q\<bar> + 1"
proof (cases "0 < q")
  case True
  then show ?thesis using float_round_bound_pos [OF True] by simp
next
  case False
  show ?thesis
  proof (cases "q = 0")
    case True
    then show ?thesis by (simp add: float_round_def)
  next
    case False
    with \<open>\<not> 0 < q\<close> have n: "0 < - q" by simp
    show ?thesis
      using float_round_bound_pos [OF n] float_round_minus [of q] n by simp
  qed
qed

lemma float_round_repr:
  assumes k: "0 < k" "k < 2 ^ 53" and j: "- 1074 \<le> j"
  shows "float_round (of_int k * 2 powi j) = of_int k * 2 powi j"
proof -
  define q :: rat where "q = of_int k * 2 powi j"
  define p where "p = max (expo q) (- 1022) - 52"
  have q: "0 < q" using k(1) by (simp add: q_def)
  have pj: "p \<le> j"
  proof (rule ccontr)
    assume "\<not> p \<le> j"
    then have jp: "j < p" by simp
    then have e: "- 1022 < expo q" and pe: "p = expo q - 52"
      using j by (auto simp: p_def)
    have "(of_int k :: rat) < of_int (2 ^ 53)"
      using k(2) by (simp only: of_int_less_iff)
    then have "(of_int k :: rat) < 2 powi 53" by simp
    then have "q < 2 powi 53 * 2 powi j"
      unfolding q_def by (intro mult_strict_right_mono) simp_all
    also have "\<dots> = 2 powi (53 + j)" by (simp only: powi2_add)
    finally have "(2::rat) powi (expo q) < 2 powi (53 + j)"
      using expo_bounds(1) [OF q] by linarith
    then have "expo q < 53 + j" by (rule powi2_less_imp)
    with jp pe show False by simp
  qed
  have "q / 2 powi p = of_int k * 2 powi (j - p)"
    by (simp add: q_def powi2_diff)
  also have "\<dots> = of_int k * 2 ^ nat (j - p)"
    using pj by (simp add: power_int_def)
  also have "\<dots> = of_int (k * 2 ^ nat (j - p))" by simp
  finally have "round_half_even (q / 2 powi p) = k * 2 ^ nat (j - p)"
    by (simp only: round_half_even_of_int)
  then have "float_round q = of_int (k * 2 ^ nat (j - p)) * 2 powi p"
    using float_round_pos [OF q] by (simp add: p_def)
  also have "\<dots> = of_int k * (2 powi (j - p) * 2 powi p)"
    using pj by (simp add: power_int_def)
  also have "2 powi (j - p) * (2::rat) powi p = 2 powi j"
    by (simp flip: powi2_add)
  finally show ?thesis by (simp add: q_def)
qed

lemma float_round_of_nat:
  assumes "n < 2 ^ 53"
  shows "float_round (of_nat n) = of_nat n"
proof (cases "n = 0")
  case True
  then show ?thesis by (simp add: float_round_def)
next
  case False
  have "int n < int (2 ^ 53)" using assms by (simp only: of_nat_less_iff)
  then have "int n < 2 ^ 53" by simp
  then show ?thesis
    using float_round_repr [of "int n" 0] False by simp
qed

lemma float_round_half_nat:
  assumes "n < 2 ^ 53"
  shows "float_round (of_nat n * (1 / 2)) = of_nat n / 2"
proof (cases "n = 0")
  case True
  then show ?thesis by (simp add: float_round_def)
next
  case False
  have "int n < int (2 ^ 53)" using assms by (simp only: of_nat_less_iff)
  then have "int n < 2 ^ 53" by simp
  then show ?thesis
    using float_round_repr [of "int n" "- 1"] False by (simp add: power_int_minus)
qed

lemma expo_eqI:
  assumes "0 < q" and "2 powi e \<le> q" and "q < 2 powi (e + 1)"
  shows "expo q = e"
proof -
  have "(2::rat) powi (expo q) < 2 powi (e + 1)"
    using expo_bounds(1) [OF assms(1)] assms(3) by linarith
  then have a: "expo q < e + 1" by (rule powi2_less_imp)
  have "(2::rat) powi e < 2 powi (expo q + 1)"
    using expo_bounds(2) [OF assms(1)] assms(2) by linarith
  then have "e < expo q + 1" by (rule powi2_less_imp)
  with a show ?thesis by simp
qed

lemma float_round_eqI:
  assumes "0 < q" and "2 powi e \<le> q" and "q < 2 powi (e + 1)" and "- 1022 \<le> e"
    and "round_half_even (q / 2 powi (e - 52)) = n"
  shows "float_round q = of_int n * 2 powi (e - 52)"
proof -
  have "expo q = e" using assms(1-3) by (rule expo_eqI)
  then have "max (expo q) (- 1022) - 52 = e - 52" using assms(4) by simp
  then show ?thesis
    using float_round_pos [OF assms(1)] assms(5) by simp
qed

lemma floor_numeral_div:
  "\<lfloor>numeral a / numeral b :: rat\<rfloor> = numeral a div numeral b"
  using floor_divide_of_int_eq [of "numeral a" "numeral b", where ?'a = rat] by simp

lemma float_round_numeral:
  "numeral n < (2::nat) ^ 53 \<Longrightarrow> float_round (numeral n) = numeral n"
  using float_round_of_nat [of "numeral n"] by simp

lemma float_round_one: "float_round 1 = 1"
  using float_round_of_nat [of 1] by simp

lemma no_overflow_small: "\<bar>r\<bar> < 2 ^ 53 \<Longrightarrow> \<not> float_overflow r"
proof -
  assume "\<bar>r\<bar> < 2 ^ 53"
  moreover have "(2::rat) ^ 53 \<le> 2 ^ 1024"
    by (rule power_increasing) simp_all
  ultimately show ?thesis by (simp add: float_overflow_def)
qed

subsection \<open>Book stage: the chapter fallback\<close>

text \<open>
  C8: when the expansion of a research section fails (the generation call for the
  chapter's prompt raises), \<open>generate_chapter\<close> returns a chapter whose content is the
  original research content, whose confidence is \<open>max(base_confidence - 10, 60)\<close> and
  whose list of sections is empty.
\<close>

theorem generate_chapter_fallback:
  assumes "fst (generate_with_bedrock invoke_model
                  (chapter_prompt topic title research_content) w) = None"
  shows "ch_content (fst (generate_chapter invoke_model chapter_number title research_content
                            topic base_confidence w)) = research_content
       \<and> ch_confidence (fst (generate_chapter invoke_model chapter_number title research_content
                                 topic base_confidence w)) = max (base_confidence - 10) 60
       \<and> ch_sections (fst (generate_chapter invoke_model chapter_number title research_content
                               topic base_confidence w)) = []"
  using assms by (auto simp: generate_chapter_def split: prod.splits option.splits)

lemma generate_with_bedrock_down:
  "generate_with_bedrock (\<lambda>p w. (None, w)) prompt w = (None, w)"
  by (simp add: generate_with_bedrock_def)

theorem generate_chapter_fallback_witness:
  "ch_content (fst (generate_chapter (\<lambda>p w. (None, w)) 2 ''Overview'' ''AI is broad.''
                      ''AI'' 90 ())) = ''AI is broad.''
   \<and> ch_confidence (fst (generate_chapter (\<lambda>p w. (None, w)) 2 ''Overview'' ''AI is broad.''
                           ''AI'' 90 ())) = 80
   \<and> ch_sections (fst (generate_chapter (\<lambda>p w. (None, w)) 2 ''Overview'' ''AI is broad.''
                         ''AI'' 90 ())) = []"
  using generate_chapter_fallback
    [of "\<lambda>p w. (None, w)" "''AI''" "''Overview''" "''AI is broad.''" "()" 2 90]
  by (simp add: generate_with_bedrock_down)

subsection \<open>Research stage: one entry per section\<close>

lemma research_loop_acc:
  "research_loop im post topic secs acc w =
     (acc @ fst (research_loop im post topic secs [] w),
      snd (research_loop im post topic secs [] w))"
proof (induction secs arbitrary: acc w)
  case Nil
  then show ?case by simp
next
  case (Cons s secs)
  obtain item w' where step: "research_section im post topic s w = (item, w')"
    by (cases "research_section im post topic s w")
  show ?case
    using Cons.IH [of "acc @ [item]" w'] Cons.IH [of "[item]" w'] by (simp add: step)
qed

lemma research_section_name: "section (fst (research_section im post topic s w)) = s"
  by (simp add: research_section_def Let_def split: prod.splits option.splits)

lemma research_loop_sections:
  "map section (fst (research_loop im post topic secs [] w)) = secs"
proof (induction secs arbitrary: w)
  case Nil
  then show ?case by simp
next
  case (Cons s secs)
  obtain item w' where step: "research_section im post topic s w = (item, w')"
    by (cases "research_section im post topic s w")
  have "section item = s"
    using research_section_name [of im post topic s w] by (simp add: step)
  then show ?case
    using Cons.IH [of w'] research_loop_acc [of im post topic secs "[item]" w']
    by (simp add: step)
qed

lemma research_loop_nth:
  "i < length secs \<Longrightarrow>
   fst (research_loop im post topic secs [] w) ! i =
     fst (research_section im post topic (secs ! i)
            (snd (research_loop im post topic (take i secs) [] w)))"
proof (induction secs arbitrary: w i)
  case Nil
  then show ?case by simp
next
  case (Cons s secs)
  obtain item w' where step: "research_section im post topic s w = (item, w')"
    by (cases "research_section im post topic s w")
  show ?case
  proof (cases i)
    case 0
    then show ?thesis
      using research_loop_acc [of im post topic secs "[item]" w'] by (simp add: step)
  next
    case (Suc j)
    then have "j < length secs" using Cons.prems by simp
    then show ?thesis
      using Cons.IH [of j w'] Suc research_loop_acc [of im post topic secs "[item]" w']
        research_loop_acc [of im post topic "take j secs" "[item]" w']
      by (simp add: step)
  qed
qed

text \<open>
  C5: for every topic and every ordered list of N section names, \<open>generate_research\<close>
  returns exactly N entries, in the input order and each under its section's name. The
  entry of index \<open>i\<close> depends only on what the two backends answer for that section's
  prompt in the world the loop reaches it in, whatever happened to the sections before
  it: the Bedrock text, scored, with source "bedrock"; else the Groq text, scored, with
  source "groq"; and when both backends fail, the section name with the content
  "Research data for {section} is currently unavailable. Please try again later.",
  confidence 50 and source "fallback".
\<close>

theorem generate_research_entries:
  "length (fst (generate_research im post topic sections w)) = length sections
   \<and> map section (fst (generate_research im post topic sections w)) = sections
   \<and> (\<forall>i < length sections. \<forall>content.
         fst (generate_with_bedrock im (create_research_prompt topic (sections ! i))
                (world_before im post topic sections i w)) = Some content
         \<longrightarrow> fst (generate_research im post topic sections w) ! i =
               \<lparr>section = sections ! i, details = content,
                confidence = calculate_confidence_score content (sections ! i),
                source = ''bedrock''\<rparr>)
   \<and> (\<forall>i < length sections. \<forall>content.
         fst (generate_with_bedrock im (create_research_prompt topic (sections ! i))
                (world_before im post topic sections i w)) = None
         \<and> fst (generate_with_groq post (create_research_prompt topic (sections ! i))
                  (snd (generate_with_bedrock im (create_research_prompt topic (sections ! i))
                          (world_before im post topic sections i w)))) = Some content
         \<longrightarrow> fst (generate_research im post topic sections w) ! i =
               \<lparr>section = sections ! i, details = content,
                confidence = calculate_confidence_score content (sections ! i),
                source = ''groq''\<rparr>)
   \<and> (\<forall>i < length sections.
         fst (generate_with_bedrock im (create_research_prompt topic (sections ! i))
                (world_before im post topic sections i w)) = None
         \<and> fst (generate_with_groq post (create_research_prompt topic (sections ! i))
                  (snd (generate_with_bedrock im (create_research_prompt topic (sections ! i))
                          (world_before im post topic sections i w)))) = None
         \<longrightarrow> fst (generate_research im post topic sections w) ! i =
               \<lparr>section = sections ! i,
                details = ''Research data for '' @ sections ! i
                  @ '' is currently unavailable. Please try again later.'',
                confidence = 50,
                source = ''fallback''\<rparr>)"
proof -
  have names: "map section (fst (generate_research im post topic sections w)) = sections"
    by (simp add: generate_research_def research_loop_sections)
  have len: "length (fst (generate_research im post topic sections w)) = length sections"
    using names by (metis length_map)
  have nth: "fst (generate_research im post topic sections w) ! i =
           fst (research_section im post topic (sections ! i)
                  (world_before im post topic sections i w))"
    if "i < length sections" for i
    using that by (simp add: generate_research_def world_before_def research_loop_nth)
  have bedrock: "fst (research_section im post topic s v) =
      \<lparr>section = s, details = content, confidence = calculate_confidence_score content s,
       source = ''bedrock''\<rparr>"
    if "fst (generate_with_bedrock im (create_research_prompt topic s) v) = Some content"
    for s v content
    using that by (auto simp: research_section_def Let_def split: prod.splits option.splits)
  have groq: "fst (research_section im post topic s v) =
      \<lparr>section = s, details = content, confidence = calculate_confidence_score content s,
       source = ''groq''\<rparr>"
    if "fst (generate_with_bedrock im (create_research_prompt topic s) v) = None"
      and "fst (generate_with_groq post (create_research_prompt topic s)
                  (snd (generate_with_bedrock im (create_research_prompt topic s) v)))
           = Some content"
    for s v content
    using that by (auto simp: research_section_def Let_def split: prod.splits option.splits)
  have fallback: "fst (research_section im post topic s v) =
      \<lparr>section = s,
       details = ''Research data for '' @ s
         @ '' is currently unavailable. Please try again later.'',
       confidence = 50, source = ''fallback''\<rparr>"
    if "fst (generate_with_bedrock im (create_research_prompt topic s) v) = None"
      and "fst (generate_with_groq post (create_research_prompt topic s)
                  (snd (generate_with_bedrock im (create_research_prompt topic s) v))) = None"
    for s v
    using that by (auto simp: research_section_def Let_def split: prod.splits option.splits)
  show ?thesis
    using names len nth bedrock groq fallback by simp
qed

lemma generate_with_groq_eval:
  "generate_with_groq (\<lambda>p (n::nat). (if n = 0 then None else Some ''Data 42%'', Suc n)) prompt n
     = (if n = 0 then None else Some ''Data 42%'', Suc n)"
  by (simp add: generate_with_groq_def py_strip_def is_space_def)

theorem generate_research_entries_witness:
  "fst (generate_research (\<lambda>p w. (None, w))
          (\<lambda>p (n::nat). (if n = 0 then None else Some ''Data 42%'', Suc n))
          ''AI'' [''Overview'', ''Advantages''] 0)
     = [\<lparr>section = ''Overview'',
         details = ''Research data for Overview is currently unavailable. Please try again later.'',
         confidence = 50, source = ''fallback''\<rparr>,
        \<lparr>section = ''Advantages'', details = ''Data 42%'', confidence = 82,
         source = ''groq''\<rparr>]"
proof -
  let ?im = "\<lambda>(p::string) (w::nat). (None :: string option, w)"
  let ?post = "\<lambda>(p::string) (n::nat). (if n = 0 then None else Some ''Data 42%'', Suc n)"
  let ?secs = "[''Overview'', ''Advantages'']"
  let ?res = "fst (generate_research ?im ?post ''AI'' ?secs 0)"
  have w0: "world_before ?im ?post ''AI'' ?secs 0 0 = 0"
    by (simp add: world_before_def)
  have w1: "world_before ?im ?post ''AI'' ?secs 1 0 = 1"
    by (simp add: world_before_def research_section_def generate_with_bedrock_down
        generate_with_groq_eval)
  note inst = generate_research_entries [of ?im ?post "''AI''" ?secs 0]
  have len: "length ?res = 2"
    using inst by simp
  have groq: "\<forall>i < length ?secs. \<forall>content.
         fst (generate_with_bedrock ?im (create_research_prompt ''AI'' (?secs ! i))
                (world_before ?im ?post ''AI'' ?secs i 0)) = None
         \<and> fst (generate_with_groq ?post (create_research_prompt ''AI'' (?secs ! i))
                  (snd (generate_with_bedrock ?im (create_research_prompt ''AI'' (?secs ! i))
                          (world_before ?im ?post ''AI'' ?secs i 0)))) = Some content
         \<longrightarrow> ?res ! i =
               \<lparr>section = ?secs ! i, details = content,
                confidence = calculate_confidence_score content (?secs ! i),
                source = ''groq''\<rparr>"
    and fallback: "\<forall>i < length ?secs.
         fst (generate_with_bedrock ?im (create_research_prompt ''AI'' (?secs ! i))
                (world_before ?im ?post ''AI'' ?secs i 0)) = None
         \<and> fst (generate_with_groq ?post (create_research_prompt ''AI'' (?secs ! i))
                  (snd (generate_with_bedrock ?im (create_research_prompt ''AI'' (?secs ! i))
                          (world_before ?im ?post ''AI'' ?secs i 0)))) = None
         \<longrightarrow> ?res ! i =
               \<lparr>section = ?secs ! i,
                details = ''Research data for '' @ ?secs ! i
                  @ '' is currently unavailable. Please try again later.'',
                confidence = 50, source = ''fallback''\<rparr>"
    using inst by blast+
  have a: "?res ! 0 =
       \<lparr>section = ''Overview'',
        details = ''Research data for Overview is currently unavailable. Please try again later.'',
        confidence = 50, source = ''fallback''\<rparr>"
    using fallback [rule_format, of 0] w0
    by (simp add: generate_with_bedrock_down generate_with_groq_eval)
  have b: "?res ! 1 =
       \<lparr>section = ''Advantages'', details = ''Data 42%'', confidence = 82, source = ''groq''\<rparr>"
    using groq [rule_format, of 1 "''Data 42%''"] w1
    by (simp add: generate_with_bedrock_down generate_with_groq_eval
        calculate_confidence_score_def re_findall_digits_def is_digit_def)
  have "?res = [?res ! 0, ?res ! 1]"
    using len by (cases ?res; cases "tl ?res") auto
  then show ?thesis using a b by simp
qed

subsection \<open>Quality gate: the empty result\<close>

text \<open>
  C10 (as amended): for every threshold, validating an empty list of sections returns
  acceptable = false, average_confidence 0, total_sections 0 and high_confidence_count 0,
  and the verdict carries no confidence distribution at all.
\<close>

theorem validate_empty:
  "validate_research_quality min_confidence [] =
     Inr \<lparr>acceptable = False, average_confidence = 0, total_sections = 0,
          high_confidence_count = 0, confidence_distribution = None\<rparr>"
  by (simp add: validate_research_quality_def)

text \<open>
  C10 as stated fails: at threshold 70 the verdict of the empty result is not the one
  with a distribution of three zero buckets.
\<close>

theorem validate_empty_distribution_counterexample:
  "validate_research_quality 70 [] \<noteq>
     Inr \<lparr>acceptable = False, average_confidence = 0, total_sections = 0,
          high_confidence_count = 0,
          confidence_distribution = Some \<lparr>dist_high = 0, dist_medium = 0, dist_low = 0\<rparr>\<rparr>"
  by (simp add: validate_research_quality_def)

subsection \<open>Book stage: chapter numbers and the table of contents\<close>

lemma generate_chapter_number:
  "ch_chapter_number (fst (generate_chapter im n t rc topic bc w)) = n"
  by (simp add: generate_chapter_def Let_def split: prod.splits option.splits)

lemma book_loop_shape:
  "book_loop im topic items n chs toc w = ((chs', toc', n'), w') \<Longrightarrow>
     n' = n + int (length items)
     \<and> map toc_chapter_number toc' = map toc_chapter_number toc @ [n .. n + int (length items) - 1]
     \<and> map ch_chapter_number chs' = map ch_chapter_number chs @ [n .. n + int (length items) - 1]"
proof (induction items arbitrary: n chs toc w)
  case Nil
  then show ?case by simp
next
  case (Cons x xs)
  obtain c w1 where step:
    "generate_chapter im n (section x) (details x) topic (confidence x) w = (c, w1)"
    by (cases "generate_chapter im n (section x) (details x) topic (confidence x) w")
  have cn: "ch_chapter_number c = n"
    using generate_chapter_number [of im n "section x" "details x" topic "confidence x" w]
    by (simp add: step)
  have rest: "book_loop im topic xs (n + 1) (chs @ [c])
      (toc @ [\<lparr>toc_chapter_number = n, toc_title = section x, toc_page = n\<rparr>]) w1
      = ((chs', toc', n'), w')"
    using Cons.prems by (simp add: step Let_def)
  have up: "[n .. n + int (length (x # xs)) - 1] = n # [n + 1 .. n + 1 + int (length xs) - 1]"
    by (simp add: upto_rec1 [of n])
  show ?case
    using Cons.IH [OF rest] cn up by simp
qed

text \<open>
  C2, on the code: every book \<open>generate_book\<close> returns has as many table-of-contents
  entries as chapters, and the table numbers them 1, 2, ..., N + 2 for N research
  sections; the chapters are numbered 1, ..., N + 1 and then 99: the conclusion keeps
  its placeholder, which \<open>generate_book\<close> never rewrites, so the two last numbers differ
  unless N = 97.
\<close>

theorem generate_book_numbering:
  assumes "generate_book im topic research_data title w = (Inr b, w')"
  shows "length (book_table_of_contents b) = length (book_chapters b)
       \<and> map toc_chapter_number (book_table_of_contents b) = [1 .. int (length research_data) + 2]
       \<and> map ch_chapter_number (book_chapters b) = [1 .. int (length research_data) + 1] @ [99]"
proof -
  obtain intro w1 where i: "generate_introduction im topic research_data w = (intro, w1)"
    by (cases "generate_introduction im topic research_data w")
  obtain chs toc n w2 where l: "book_loop im topic research_data 2 [intro]
      [\<lparr>toc_chapter_number = 1, toc_title = ''Introduction'', toc_page = 1\<rparr>] w1
      = ((chs, toc, n), w2)"
    by (metis prod.exhaust)
  obtain concl w3 where c: "generate_conclusion im topic research_data w2 = (concl, w3)"
    by (cases "generate_conclusion im topic research_data w2")
  have in1: "ch_chapter_number intro = 1"
    using i by (auto simp: generate_introduction_def split: prod.splits option.splits)
  have c99: "ch_chapter_number concl = 99"
    using c by (auto simp: generate_conclusion_def Let_def split: prod.splits option.splits)
  have b1: "book_chapters b = chs @ [concl]"
    and b2: "book_table_of_contents b = toc @ [\<lparr>toc_chapter_number = n, toc_title = ''Conclusion'', toc_page = n\<rparr>]"
    using assms by (auto simp: generate_book_def i l c Let_def split: sum.splits)
  have sh: "n = 2 + int (length research_data)"
    "map toc_chapter_number toc = [1] @ [2 .. 2 + int (length research_data) - 1]"
    "map ch_chapter_number chs = [1] @ [2 .. 2 + int (length research_data) - 1]"
    using book_loop_shape [OF l] in1 by simp_all
  have u1: "[1 .. int (length research_data) + 1] = 1 # [2 .. 2 + int (length research_data) - 1]"
    by (simp add: upto_rec1 [of 1] add.commute)
  have u2: "[1 .. int (length research_data) + 2] = [1 .. int (length research_data) + 1] @ [int (length research_data) + 2]"
    using upto_rec2 [of 1 "int (length research_data) + 2"] by (simp add: add.commute)
  have len: "length toc = length chs"
    using sh(2,3) by (metis length_map)
  show ?thesis
    using b1 b2 sh c99 u1 u2 len by simp
qed


lemma float_round_220_3: "float_round (220 / 3) = 5160374573028693 / 70368744177664"
  using float_round_eqI [of "220 / 3" 6 5160374573028693]
  by (simp add: round_half_even_def Let_def floor_numeral_div)

lemma int_truediv_220_3: "int_truediv 220 3 = Inr (5160374573028693 / 70368744177664)"
  by (simp add: int_truediv_def float_round_220_3 no_overflow_small)

lemma float_round_733_10: "float_round (733 / 10) = 5158028948222771 / 70368744177664"
  using float_round_eqI [of "733 / 10" 6 5158028948222771]
  by (simp add: round_half_even_def Let_def floor_numeral_div)

lemma py_round1_220_3:
  "py_round1 (5160374573028693 / 70368744177664) = 5158028948222771 / 70368744177664"
  by (simp add: py_round1_def round_half_even_def Let_def floor_numeral_div float_round_733_10)

lemma words_intro_AI:
  "length (py_split ''This comprehensive guide explores AI in detail, providing insights, analysis, and practical information.'') = 13"
  by code_simp

lemma words_conclusion_AI:
  "length (py_split ''This guide has explored AI from multiple angles, providing comprehensive insights and practical information.'') = 14"
  by code_simp

lemma words_details: "length (py_split ''AI is broad.'') = 3"
  by code_simp

lemma generate_book_demo:
  "generate_book (\<lambda>p w. (None, w)) ''AI'' [demo_item] ''Guide'' () = (Inr demo_book, ())"
  by (simp add: generate_book_def generate_introduction_def generate_chapter_def
      generate_conclusion_def generate_with_bedrock_down demo_item_def demo_book_def
      words_details int_truediv_220_3 py_round1_220_3 Let_def)

theorem generate_book_numbering_witness:
  "map toc_chapter_number (book_table_of_contents demo_book) = [1, 2, 3]
   \<and> map ch_chapter_number (book_chapters demo_book) = [1, 2, 99]"
proof -
  have "map toc_chapter_number (book_table_of_contents demo_book) = [1 .. int (length [demo_item]) + 2]
      \<and> map ch_chapter_number (book_chapters demo_book) = [1 .. int (length [demo_item]) + 1] @ [99]"
    using generate_book_numbering [OF generate_book_demo] by blast
  moreover have "[1 .. int (length [demo_item]) + 2] = [1, 2, 3]"
    by (simp add: upto_rec1)
  moreover have "[1 .. int (length [demo_item]) + 1] = [1, 2]"
    by (simp add: upto_rec1)
  ultimately show ?thesis by simp
qed

text \<open>
  C9, on the code: with the topic "AI" and every generation call failing, the
  introduction and the conclusion of the book carry \<open>word_count\<close> 15, while their contents
  have 13 and 14 whitespace-separated words; the chapter of the research section, also on
  its fallback path, carries the count of its content (3).
\<close>

theorem fallback_word_count_mismatch:
  "fst (generate_book (\<lambda>p w. (None, w)) ''AI'' [demo_item] ''Guide'' ()) = Inr demo_book
   \<and> map ch_word_count (book_chapters demo_book) = [15, 3, 15]
   \<and> map (\<lambda>c. length (py_split (ch_content c))) (book_chapters demo_book) = [13, 3, 14]"
  by (simp add: generate_book_demo demo_book_def words_intro_AI words_conclusion_AI words_details)

subsection \<open>Audiobook stage: chunking\<close>

lemma split_sep_Nil: "split_sep sep cur [] = [cur]"
  by (subst split_sep.simps) simp

lemma split_sep_char_Cons:
  "split_sep [c] cur (x # xs) =
     (if x = c then cur # split_sep [c] [] xs else split_sep [c] (cur @ [x]) xs)"
  by (subst split_sep.simps) simp

lemma concat_split_sep_char:
  "concat (split_sep [c] cur s) = cur @ filter (\<lambda>x. x \<noteq> c) s"
  by (induction s arbitrary: cur) (simp_all add: split_sep_Nil split_sep_char_Cons)

lemma split_sep_char_absent: "c \<notin> set s \<Longrightarrow> split_sep [c] cur s = [cur @ s]"
  by (induction s arbitrary: cur) (auto simp: split_sep_Nil split_sep_char_Cons)

lemma py_replace_Nil: "py_replace [] old new = []"
  by (subst py_replace.simps) simp

lemma py_replace_absent: "d \<notin> set s \<Longrightarrow> py_replace s [c, d] new = s"
proof (induction s)
  case Nil
  then show ?case by (simp add: py_replace_Nil)
next
  case (Cons x xs)
  have "\<not> prefix [c, d] (x # xs)"
    using Cons.prems by (cases xs) auto
  then show ?case
    using Cons by (subst py_replace.simps) auto
qed

lemma pack_sentences_concat:
  "pack_sentences m ss chunks cur = (chunks', cur') \<Longrightarrow>
   concat chunks' @ cur' = concat chunks @ cur @ concat ss"
  by (induction ss arbitrary: chunks cur) (auto split: if_splits)

text \<open>
  What the chunks add up to: the text itself when it is no longer than \<open>max_size\<close>;
  for a longer text, the text after the three replacements, without its "|" characters.
\<close>

lemma chunks_concat:
  "concat (split_text_into_chunks text max_size) =
     (if int (length text) \<le> max_size then text
      else filter (\<lambda>c. c \<noteq> CHR ''|'')
             (py_replace (py_replace (py_replace text ''! '' ''!|'') ''? '' ''?|'') ''. '' ''.|''))"
proof (cases "int (length text) \<le> max_size")
  case True
  then show ?thesis by (simp add: split_text_into_chunks_def)
next
  case False
  obtain chunks cur where p: "pack_sentences max_size (sentences_of text) [] [] = (chunks, cur)"
    by (cases "pack_sentences max_size (sentences_of text) [] []")
  have "concat chunks @ cur = concat (sentences_of text)"
    using pack_sentences_concat [OF p] by simp
  moreover have "concat (split_text_into_chunks text max_size) = concat chunks @ cur"
    using False by (simp add: split_text_into_chunks_def p)
  ultimately show ?thesis
    using False by (simp add: sentences_of_def py_split_sep_def concat_split_sep_char)
qed

lemma py_replace_replicate:
  "a \<noteq> c \<Longrightarrow> py_replace (replicate n a @ s) [c, d] new = replicate n a @ py_replace s [c, d] new"
proof (induction n)
  case 0
  then show ?case by simp
next
  case (Suc n)
  then show ?case by (subst py_replace.simps) simp
qed

lemma replace_tail:
  "py_replace ''. b'' ''! '' ''!|'' = ''. b''"
  "py_replace ''. b'' ''? '' ''?|'' = ''. b''"
  "py_replace ''. b'' ''. '' ''.|'' = ''.|b''"
  by code_simp+

text \<open>
  C3, on the code: for a text longer than \<open>max_size\<close> the chunks do not add up to the
  text. "a. b" split with \<open>max_size\<close> 3 is the one chunk "a.b"; and the 9502 characters
  of 9499 times "a" followed by ". b", split with \<open>max_size\<close> 9500, come back without the
  space after the full stop. A text no longer than \<open>max_size\<close> comes back intact.
\<close>

theorem chunks_lose_separators:
  "split_text_into_chunks ''a. b'' 3 = [''a.b'']
   \<and> concat (split_text_into_chunks (replicate 9499 (CHR ''a'') @ ''. b'') 9500)
       = replicate 9499 (CHR ''a'') @ ''.b''
   \<and> replicate 9499 (CHR ''a'') @ ''.b'' \<noteq> replicate 9499 (CHR ''a'') @ ''. b''"
proof -
  have small: "split_text_into_chunks ''a. b'' 3 = [''a.b'']"
    by code_simp
  have "py_replace (py_replace (py_replace (replicate 9499 (CHR ''a'') @ ''. b'')
            ''! '' ''!|'') ''? '' ''?|'') ''. '' ''.|''
          = replicate 9499 (CHR ''a'') @ ''.|b''"
    by (simp only: py_replace_replicate replace_tail char.inject simp_thms)
  then have "concat (split_text_into_chunks (replicate 9499 (CHR ''a'') @ ''. b'') 9500)
       = replicate 9499 (CHR ''a'') @ ''.b''"
    by (simp add: chunks_concat)
  then show ?thesis using small by simp
qed

lemma split_text_unbroken:
  assumes "max_size < int (length text)" and "text \<noteq> []"
    and "CHR '' '' \<notin> set text" and "CHR ''|'' \<notin> set text"
  shows "split_text_into_chunks text max_size = [text]"
proof -
  have "sentences_of text = [text]"
    using assms(3,4)
    by (simp add: sentences_of_def py_split_sep_def py_replace_absent split_sep_char_absent)
  then show ?thesis
    using assms(1,2) by (simp add: split_text_into_chunks_def)
qed

text \<open>
  C4, on the code: a text of 20000 characters with no sentence break is longer than
  9500, has a single sentence, and comes back as one chunk of all 20000 characters.
\<close>

theorem oversized_chunk:
  "split_text_into_chunks (replicate 20000 (CHR ''a'')) 9500 = [replicate 20000 (CHR ''a'')]
   \<and> length (replicate 20000 (CHR ''a'')) = 20000"
  using split_text_unbroken [of 9500 "replicate 20000 (CHR ''a'')"]
  by simp

subsection \<open>Audiobook stage: the duration estimate\<close>

lemma powi2_minus_53: "(2::rat) powi (- 53) = 1 / 9007199254740992"
  by (simp add: power_int_minus divide_simps)

lemma powi2_minus_1022_le: "(2::rat) powi (- 1022) \<le> 1 / 256"
proof -
  have "(2::rat) powi (- 1022) \<le> 2 powi (- 8)"
    by (rule powi2_mono) simp
  also have "(2::rat) powi (- 8) = 1 / 256"
    by (simp add: power_int_minus divide_simps)
  finally show ?thesis .
qed

lemma product_error:
  fixes x :: rat
  assumes x: "1 / 150 \<le> x" "x < 2 ^ 48 / 150"
  shows "\<bar>float_round (float_round x * 60) - 60 * x\<bar> \<le> 3 / 80"
    and "\<bar>float_round x\<bar> \<le> 2 * x"
proof -
  define x1 where "x1 = float_round x"
  define y1 where "y1 = float_round (x1 * 60)"
  have t1: "2 powi (- 1022) \<le> x"
    using powi2_minus_1022_le x(1) by linarith
  have A: "\<bar>x1 - x\<bar> \<le> x * (1 / 9007199254740992)"
    using float_round_rel [OF t1] by (simp only: powi2_minus_53 x1_def)
  have A1: "x1 - x \<le> x * (1 / 9007199254740992)"
    using abs_le_D1 [OF A] .
  have A2: "- (x1 - x) \<le> x * (1 / 9007199254740992)"
    using abs_le_D2 [OF A] .
  have x1low: "1 / 300 \<le> x1"
    using A2 x(1) by linarith
  have t2: "2 powi (- 1022) \<le> x1 * 60"
    using powi2_minus_1022_le x1low by linarith
  have B: "\<bar>y1 - x1 * 60\<bar> \<le> x1 * 60 * (1 / 9007199254740992)"
    using float_round_rel [OF t2] by (simp only: powi2_minus_53 y1_def)
  have B1: "y1 - x1 * 60 \<le> x1 * 60 * (1 / 9007199254740992)"
    using abs_le_D1 [OF B] .
  have B2: "- (y1 - x1 * 60) \<le> x1 * 60 * (1 / 9007199254740992)"
    using abs_le_D2 [OF B] .
  have xb: "x < 1876499844737707 / 1000"
    using x(2) by simp
  have "y1 - 60 * x \<le> 3 / 80"
    using A1 A2 B1 B2 x(1) xb(1) by linarith
  moreover have "- (y1 - 60 * x) \<le> 3 / 80"
    using A1 A2 B1 B2 x(1) xb(1) by linarith
  ultimately have "\<bar>y1 - 60 * x\<bar> \<le> 3 / 80"
    by (rule abs_leI)
  then show "\<bar>float_round (float_round x * 60) - 60 * x\<bar> \<le> 3 / 80"
    by (simp add: y1_def x1_def)
  have "x1 \<le> 2 * x" "- x1 \<le> 2 * x"
    using A1 A2 x(1) by linarith+
  then have "\<bar>x1\<bar> \<le> 2 * x" by (rule abs_leI)
  then show "\<bar>float_round x\<bar> \<le> 2 * x"
    by (simp add: x1_def)
qed


lemma duration_of_count:
  fixes n :: nat
  assumes n: "n < 2 ^ 48"
  defines "y \<equiv> float_round (float_round (of_nat n / 150) * 60)"
  shows "\<not> float_overflow (float_round (of_nat n / 150))"
    and "\<not> float_overflow y"
    and "\<lfloor>y\<rfloor> \<le> 2 * int n div 5"
    and "2 * int n div 5 - 1 \<le> \<lfloor>y\<rfloor>"
    and "\<not> 5 dvd n \<Longrightarrow> \<lfloor>y\<rfloor> = 2 * int n div 5"
proof -
  define K where "K = 2 * int n div 5"
  define r where "r = 2 * int n mod 5"
  have r: "0 \<le> r" "r \<le> 4" and split: "2 * int n = 5 * K + r"
    by (simp_all add: K_def r_def)
  have E: "60 * (of_nat n / 150 :: rat) = of_int K + of_int r / 5"
  proof -
    have "(of_int (2 * int n) :: rat) = of_int (5 * K + r)"
      using split by (simp only:)
    then have "2 * (of_nat n :: rat) = 5 * of_int K + of_int r" by simp
    then show ?thesis by (simp add: field_simps)
  qed
  have "(of_int 0 :: rat) \<le> of_int r" "(of_int r :: rat) \<le> of_int 4"
    using r by (simp_all only: of_int_le_iff)
  then have rr: "(0::rat) \<le> of_int r" "(of_int r :: rat) \<le> 4"
    by simp_all
  have big: "(281474976710656 :: rat) < 2 ^ 1024" by simp
  have facts: "\<not> float_overflow (float_round (of_nat n / 150)) \<and> \<not> float_overflow y
      \<and> y < of_int K + 1 \<and> of_int K - 1 \<le> y - 1 / 2 \<and> (1 \<le> r \<longrightarrow> of_int K \<le> y)"
  proof (cases "n = 0")
    case True
    then have "K = 0" "r = 0" by (simp_all add: K_def r_def)
    then show ?thesis
      using True by (simp add: y_def float_round_def float_overflow_def)
  next
    case False
    then have "1 \<le> n" by simp
    then have "(1::rat) \<le> of_nat n" by simp
    then have x1: "1 / 150 \<le> (of_nat n / 150 :: rat)" by simp
    have "(of_nat n :: rat) < of_nat (2 ^ 48)"
      using n by (simp only: of_nat_less_iff)
    then have nb: "(of_nat n :: rat) < 281474976710656" by simp
    then have x2: "(of_nat n / 150 :: rat) < 2 ^ 48 / 150" by simp
    have P: "\<bar>y - 60 * (of_nat n / 150)\<bar> \<le> 3 / 80"
      unfolding y_def by (rule product_error(1) [OF x1 x2])
    have Q: "\<bar>float_round (of_nat n / 150)\<bar> \<le> 2 * (of_nat n / 150)"
      by (rule product_error(2) [OF x1 x2])
    have P1: "y - (of_int K + of_int r / 5) \<le> 3 / 80"
      using abs_le_D1 [OF P] by (simp only: E)
    have P2: "- (y - (of_int K + of_int r / 5)) \<le> 3 / 80"
      using abs_le_D2 [OF P] by (simp only: E)
    have o1: "\<bar>float_round (of_nat n / 150)\<bar> < 2 ^ 1024"
      using Q nb big by linarith
    have yb: "y \<le> 60 * (of_nat n / 150) + 3 / 80" "- y \<le> 3 / 80"
      using abs_le_D1 [OF P] abs_le_D2 [OF P] x1 by linarith+
    have "\<bar>y\<bar> \<le> 60 * (of_nat n / 150) + 3 / 80"
      using yb x1 by (intro abs_leI) linarith+
    then have o2: "\<bar>y\<bar> < 2 ^ 1024"
      using nb big by linarith
    have r1: "(1::rat) \<le> of_int r" if "1 \<le> r"
    proof -
      have "(of_int 1 :: rat) \<le> of_int r" using that by (simp only: of_int_le_iff)
      then show ?thesis by simp
    qed
    show ?thesis
      using o1 o2 P1 P2 rr r1 by (auto simp: float_overflow_def not_le) 
  qed
  show "\<not> float_overflow (float_round (of_nat n / 150))" "\<not> float_overflow y"
    using facts by simp_all
  have "y < of_int (K + 1)" using facts by simp
  then have fl: "\<lfloor>y\<rfloor> < K + 1" by (simp only: floor_less_iff)
  then show "\<lfloor>y\<rfloor> \<le> 2 * int n div 5" by (simp add: K_def)
  have "of_int (K - 1) \<le> y" using facts by simp
  then have "K - 1 \<le> \<lfloor>y\<rfloor>" by (simp only: le_floor_iff)
  then show "2 * int n div 5 - 1 \<le> \<lfloor>y\<rfloor>" by (simp add: K_def)
  show "\<lfloor>y\<rfloor> = 2 * int n div 5" if "\<not> 5 dvd n"
  proof -
    have "\<not> 5 dvd int n" using that int_dvd_int_iff [of 5 n] by simp
    then have "\<not> 5 dvd 2 * int n" by presburger
    then have "1 \<le> r" using r(1) by (simp add: r_def dvd_eq_mod_eq_0)
    then have "of_int K \<le> y" using facts by simp
    then have "K \<le> \<lfloor>y\<rfloor>" by (simp only: le_floor_iff)
    with fl show ?thesis by (simp add: K_def)
  qed
qed

lemma estimate_of_count:
  assumes "length (py_split text) < 2 ^ 48"
  shows "estimate_audio_duration text =
           Inr \<lfloor>float_round (float_round (of_nat (length (py_split text)) / 150) * 60)\<rfloor>"
  using duration_of_count(1,2) [OF assms]
  by (simp add: estimate_audio_duration_def int_truediv_def Let_def)

lemma generate_chapter_audio_duration:
  assumes "generate_chapter_audio speech upload getsize chapter_number chapter_title text
             topic voice user_id conf w = (AudioSuccess info dur, w')"
  shows "estimate_audio_duration text = Inr dur \<and> audio_estimated_duration_seconds info = dur"
  using assms
  by (auto simp: generate_chapter_audio_def Let_def
      split: prod.splits option.splits if_splits sum.splits list.splits)

text \<open>
  A text that does not make exactly one chunk never gets a duration: with several chunks
  the combined file is removed before the upload, with none there is no file at all.
\<close>

lemma tts_loop_length:
  "tts_loop speech voice chunks audio_chunks w = (Some r, w') \<Longrightarrow>
   length r = length audio_chunks + length chunks"
proof (induction chunks arbitrary: audio_chunks w)
  case Nil
  then show ?case by simp
next
  case (Cons c chunks)
  then show ?case
    by (cases "speech voice c w") (auto split: option.splits)
qed

lemma generate_chapter_audio_several_chunks:
  assumes "length (split_text_into_chunks text 9500) \<noteq> 1"
  shows "fst (generate_chapter_audio speech upload getsize chapter_number chapter_title text
                topic voice user_id conf w) = AudioFailure"
proof (cases "tts_loop speech voice (split_text_into_chunks text 9500) [] w")
  case (Pair r w1)
  show ?thesis
  proof (cases r)
    case None
    then show ?thesis using Pair by (simp add: generate_chapter_audio_def)
  next
    case (Some audio_chunks)
    then have "length audio_chunks = length (split_text_into_chunks text 9500)"
      using tts_loop_length [of speech voice "split_text_into_chunks text 9500" "[]" w audio_chunks w1]
        Pair by simp
    then have "length audio_chunks \<noteq> 1" using assms by simp
    then show ?thesis
      using Pair Some
      by (cases audio_chunks) (auto simp: generate_chapter_audio_def combine_audio_chunks_def)
  qed
qed

text \<open>
  C7 (as amended): for every text of fewer than \<open>2 ^ 48\<close> words, the duration estimate
  is \<open>int(word_count / 150 * 60)\<close>, the double-precision product truncated, not rounded.
  It is at most \<open>floor(2 * word_count / 5)\<close> and at least one less; it is exactly
  \<open>floor(2 * word_count / 5)\<close> when the word count is not a multiple of 5. For a text
  that makes a single chunk, a successful \<open>generate_chapter_audio\<close> reports this
  estimate of the text. Nothing is said here of texts that make several chunks.
\<close>

theorem estimate_audio_duration_truncates:
  assumes "length (py_split text) < 2 ^ 48"
  shows "\<exists>d. estimate_audio_duration text = Inr d
           \<and> d = \<lfloor>float_round (float_round (of_nat (length (py_split text)) / 150) * 60)\<rfloor>
           \<and> d \<le> 2 * int (length (py_split text)) div 5
           \<and> 2 * int (length (py_split text)) div 5 - 1 \<le> d
           \<and> (\<not> 5 dvd length (py_split text) \<longrightarrow> d = 2 * int (length (py_split text)) div 5)
           \<and> (length (split_text_into_chunks text 9500) = 1
               \<and> generate_chapter_audio speech upload getsize chapter_number chapter_title text
                   topic voice user_id conf w = (AudioSuccess info dur, w')
               \<longrightarrow> dur = d \<and> audio_estimated_duration_seconds info = d)"
  using estimate_of_count [OF assms] duration_of_count(3,4,5) [OF assms]
    generate_chapter_audio_duration
      [of speech upload getsize chapter_number chapter_title "text" topic voice user_id conf w info dur w']
  by auto

lemma py_split_repeated: "py_split (concat (replicate n ''a '')) = replicate n ''a''"
  unfolding py_split_def by (induction n) (simp_all add: is_space_def)

lemma words150_count: "length (py_split words150) = 150"
  by (simp add: words150_def py_split_repeated)

lemma words150_length: "length words150 = 300"
  by (simp add: words150_def length_concat sum_list_replicate)

lemma float_round_2_150: "float_round (2 / 150) = 7686143364045647 / 576460752303423488"
  using float_round_eqI [of "2 / 150" "- 7" 7686143364045647]
  by (simp add: round_half_even_def Let_def floor_numeral_div)

lemma float_round_4_5_below:
  "float_round (115292150460684705 / 144115188075855872) = 3602879701896397 / 4503599627370496"
  using float_round_eqI [of "115292150460684705 / 144115188075855872" "- 1" 7205759403792794]
  by (simp add: round_half_even_def Let_def floor_numeral_div)

lemma split_a_b: "py_split ''a b'' = [''a'', ''b'']"
  by (simp add: py_split_def is_space_def)

lemma int_truediv_2_150: "int_truediv 2 150 = Inr (7686143364045647 / 576460752303423488)"
  using float_round_2_150 by (simp add: int_truediv_def no_overflow_small)

text \<open>
  C7 as stated fails: on the two-word text "a b" the product is 0.8 (rounded down to
  the nearest double); the code returns 0, the formula with \<open>round\<close> gives 1.
\<close>

theorem duration_counterexample:
  "estimate_audio_duration ''a b'' = Inr 0 \<and> spec_duration ''a b'' = Inr 1"
proof -
  have "\<not> float_overflow (3602879701896397 / 4503599627370496)"
    by (rule no_overflow_small) simp
  then show ?thesis
    by (simp add: estimate_audio_duration_def spec_duration_def split_a_b int_truediv_2_150
        float_round_4_5_below round_half_even_def Let_def floor_numeral_div)
qed

lemma int_truediv_150_150: "int_truediv 150 150 = Inr 1"
  by (simp add: int_truediv_def float_round_one no_overflow_small)

theorem estimate_audio_duration_truncates_witness:
  "estimate_audio_duration words150 = Inr 60
   \<and> length (split_text_into_chunks words150 9500) = 1
   \<and> generate_chapter_audio (\<lambda>voice chunk w. (Some chunk, w))
         (\<lambda>audio topic n title user w. (Some ''key'', w)) length
         1 ''Introduction'' words150 ''AI'' ''Fritz-PlayAI'' ''u1'' None ()
       = (AudioSuccess
            \<lparr>audio_chapter_number = 1, audio_chapter_title = ''Introduction'',
             audio_s3_key = ''key'', audio_file_size_bytes = 300,
             audio_estimated_duration_seconds = 60, audio_voice = ''Fritz-PlayAI'',
             audio_confidence = None\<rparr> 60, ())"
proof -
  have hyp: "length (py_split words150) < 2 ^ 48"
    by (simp add: words150_count)
  have "\<lfloor>float_round (float_round (of_nat (length (py_split words150)) / 150) * 60)\<rfloor> = 60"
    by (simp add: words150_count float_round_one float_round_numeral)
  moreover obtain d where "estimate_audio_duration words150 = Inr d"
    and "d = \<lfloor>float_round (float_round (of_nat (length (py_split words150)) / 150) * 60)\<rfloor>"
    using estimate_audio_duration_truncates [OF hyp,
        where speech = "\<lambda>voice chunk w. (Some chunk, w)"
          and upload = "\<lambda>audio topic n title user w. (Some ''key'', w)"
          and getsize = length and chapter_number = 1 and chapter_title = "''Introduction''"
          and topic = "''AI''" and voice = "''Fritz-PlayAI''" and user_id = "''u1''"
          and conf = None and w = "()" and w' = "()" and dur = 60
          and info = "\<lparr>audio_chapter_number = 1, audio_chapter_title = ''Introduction'',
             audio_s3_key = ''key'', audio_file_size_bytes = 300,
             audio_estimated_duration_seconds = 60, audio_voice = ''Fritz-PlayAI'',
             audio_confidence = None\<rparr>"]
    by blast
  ultimately have e: "estimate_audio_duration words150 = Inr 60"
    by simp
  have "split_text_into_chunks words150 9500 = [words150]"
    by (simp add: split_text_into_chunks_def words150_length)
  then show ?thesis
    using e by (simp add: generate_chapter_audio_def words150_length)
qed

text \<open>
  The lower bound is attained: 615 words give 245 seconds, one less than
  \<open>floor(2 * 615 / 5) = 246\<close>, because the float quotient 615 / 150 lies below 4.1.
\<close>

lemma float_round_41_10: "float_round (41 / 10) = 2308094809027379 / 562949953421312"
  using float_round_eqI [of "41 / 10" 2 4616189618054758]
  by (simp add: round_half_even_def Let_def floor_numeral_div)

lemma float_round_246_below:
  "float_round (34621422135410685 / 140737488355328) = 8655355533852671 / 35184372088832"
  using float_round_eqI [of "34621422135410685 / 140737488355328" 7 8655355533852671]
  by (simp add: round_half_even_def Let_def floor_numeral_div)

lemma estimate_615_words:
  "estimate_audio_duration (concat (replicate 615 ''a '')) = Inr 245
   \<and> 2 * 615 div 5 = (246::int)"
proof -
  have "\<not> float_overflow (2308094809027379 / 562949953421312)"
    "\<not> float_overflow (8655355533852671 / 35184372088832)"
    by (rule no_overflow_small, simp)+
  then show ?thesis
    by (simp add: estimate_audio_duration_def py_split_repeated int_truediv_def
        float_round_41_10 float_round_246_below floor_numeral_div)
qed

subsection \<open>Quality gate: the verdict of a non-empty result\<close>

lemma sum_list_abs_bound:
  "\<forall>c \<in> set cs. \<bar>c\<bar> \<le> (B::int) \<Longrightarrow> \<bar>sum_list cs\<bar> \<le> int (length cs) * B"
proof (induction cs)
  case Nil
  then show ?case by simp
next
  case (Cons c cs)
  then have "\<bar>sum_list cs\<bar> \<le> int (length cs) * B" "\<bar>c\<bar> \<le> B" by simp_all
  then show ?case by (simp add: algebra_simps)
qed

lemma sum_list_ones: "sum_list (map (\<lambda>c. 1::int) xs) = int (length xs)"
  by (induction xs) simp_all

lemma count_high:
  "sum_list (map (\<lambda>c. 1::int) (filter (\<lambda>c. 85 \<le> c) (map confidence results)))
     = int (length (filter (\<lambda>r. 85 \<le> confidence r) results))"
  by (simp add: sum_list_ones filter_map o_def)

lemma mean_no_overflow:
  assumes "results \<noteq> []" and "\<forall>r \<in> set results. \<bar>confidence r\<bar> \<le> 2 ^ 1000"
  shows "\<not> float_overflow (float_round (spec_mean results))"
proof -
  define N where "N = length results"
  define S where "S = sum_list (map confidence results)"
  have N: "0 < N" using assms(1) by (simp add: N_def)
  have "\<bar>S\<bar> \<le> int (length (map confidence results)) * 2 ^ 1000"
    unfolding S_def by (rule sum_list_abs_bound) (use assms(2) in auto)
  then have "\<bar>S\<bar> \<le> int N * 2 ^ 1000" by (simp add: N_def)
  then have "(of_int \<bar>S\<bar> :: rat) \<le> of_int (int N * 2 ^ 1000)"
    by (simp only: of_int_le_iff)
  then have b: "\<bar>of_int S :: rat\<bar> \<le> of_nat N * 2 ^ 1000" by simp
  have "\<bar>spec_mean results\<bar> = \<bar>of_int S :: rat\<bar> / of_nat N"
    using N by (simp add: spec_mean_def S_def N_def)
  also have "\<dots> \<le> (of_nat N * 2 ^ 1000) / of_nat N"
    using b N by (intro divide_right_mono) simp_all
  also have "\<dots> = 2 ^ 1000" using N by simp
  finally have m: "\<bar>spec_mean results\<bar> \<le> 2 ^ 1000" .
  have p: "(2::rat) * 2 ^ 1000 + 1 < 2 ^ 1024" by simp
  have "\<bar>float_round (spec_mean results)\<bar> \<le> 2 * \<bar>spec_mean results\<bar> + 1"
    by (rule float_round_bound)
  then have "\<bar>float_round (spec_mean results)\<bar> < 2 ^ 1024"
    using m p by linarith
  then show ?thesis by (simp add: float_overflow_def)
qed

lemma half_length:
  assumes "n < 2 ^ 53"
  shows "int_to_float (int n) = Inr (of_nat n)"
    and "(float_round (of_nat n / 2) \<le> of_nat m) = (n \<le> 2 * m)"
proof -
  have "\<bar>of_nat n :: rat\<bar> < 2 ^ 53"
  proof -
    have "(of_nat n :: rat) < of_nat (2 ^ 53)" using assms by (simp only: of_nat_less_iff)
    then show ?thesis by simp
  qed
  then have "\<not> float_overflow (of_nat n)" by (rule no_overflow_small)
  then show "int_to_float (int n) = Inr (of_nat n)"
    using float_round_of_nat [OF assms] by (simp add: int_to_float_def)
  have fr: "float_round (of_nat n / 2) = of_nat n / 2"
    using float_round_half_nat [OF assms] by simp
  have "((of_nat n :: rat) / 2 \<le> of_nat m) = ((of_nat n :: rat) \<le> of_nat (2 * m))"
    by (simp add: field_simps)
  also have "\<dots> = (n \<le> 2 * m)" by (simp only: of_nat_le_iff)
  finally show "(float_round (of_nat n / 2) \<le> of_nat m) = (n \<le> 2 * m)"
    by (simp only: fr)
qed

text \<open>
  C1 (as amended): for every non-empty research result (fewer than \<open>2 ^ 53\<close> sections,
  integer confidences of magnitude at most \<open>2 ^ 1000\<close>) and every threshold, validation
  succeeds; \<open>average_confidence\<close> is the mean of the confidences (the float quotient of
  their sum by their number) rounded to one decimal, \<open>high_confidence_count\<close> is the
  number of sections with confidence at least 85, and \<open>acceptable\<close> holds exactly when
  the unrounded float mean is at least the threshold and \<open>high_confidence_count\<close> is at
  least half the number of sections (exactly half suffices).
\<close>

theorem validate_research_quality_verdict:
  assumes "results \<noteq> []" and "length results < 2 ^ 53"
    and "\<forall>r \<in> set results. \<bar>confidence r\<bar> \<le> 2 ^ 1000"
  shows "\<exists>v. validate_research_quality min_confidence results = Inr v
     \<and> average_confidence v = py_round1 (float_round (spec_mean results))
     \<and> total_sections v = length results
     \<and> high_confidence_count v = int (length (filter (\<lambda>r. 85 \<le> confidence r) results))
     \<and> acceptable v =
         (min_confidence \<le> float_round (spec_mean results)
          \<and> length results \<le> 2 * length (filter (\<lambda>r. 85 \<le> confidence r) results))"
proof -
  have d: "int_truediv (sum_list (map confidence results)) (int (length results))
             = Inr (float_round (spec_mean results))"
    using assms(1) mean_no_overflow [OF assms(1,3)]
    by (simp add: int_truediv_def spec_mean_def)
  show ?thesis
    using assms(1) half_length [OF assms(2)]
    by (simp add: validate_research_quality_def d count_high Let_def)
qed

theorem validate_research_quality_verdict_witness:
  "\<exists>v. validate_research_quality 70 (items_of [90, 90, 60, 60]) = Inr v
     \<and> acceptable v \<and> average_confidence v = 75 \<and> total_sections v = 4
     \<and> high_confidence_count v = 2"
proof -
  have h: "items_of [90, 90, 60, 60] \<noteq> []" "length (items_of [90, 90, 60, 60]) < 2 ^ 53"
    "\<forall>r \<in> set (items_of [90, 90, 60, 60]). \<bar>confidence r\<bar> \<le> 2 ^ 1000"
    by (simp_all add: items_of_def)
  have m: "spec_mean (items_of [90, 90, 60, 60]) = 75"
    by (simp add: spec_mean_def items_of_def)
  have r: "py_round1 75 = 75"
    by (simp add: py_round1_def round_half_even_def float_round_numeral)
  have c: "length (filter (\<lambda>r. 85 \<le> confidence r) (items_of [90, 90, 60, 60])) = 2"
    "length (items_of [90, 90, 60, 60]) = 4"
    by (simp_all add: items_of_def)
  show ?thesis
    using validate_research_quality_verdict [OF h, of 70]
    by (auto simp: m r c float_round_numeral)
qed

lemma float_round_265_3: "float_round (265 / 3) = 6215905735693653 / 70368744177664"
  using float_round_eqI [of "265 / 3" 6 6215905735693653]
  by (simp add: round_half_even_def Let_def floor_numeral_div)

lemma float_round_883_10: "float_round (883 / 10) = 6213560110887731 / 70368744177664"
  using float_round_eqI [of "883 / 10" 6 6213560110887731]
  by (simp add: round_half_even_def Let_def floor_numeral_div)

lemma float_round_3_2: "float_round (3 / 2) = 3 / 2"
  using float_round_repr [of 3 "- 1"] by (simp add: power_int_minus)

text \<open>
  C1 as stated fails: for the confidences 90, 90, 85 and the threshold 70 the mean is
  265/3 (as a float, 88.33333333333333), and the verdict's \<open>average_confidence\<close> is the
  float 88.3: neither the exact mean nor the float mean.
\<close>

theorem mean_rounded_counterexample:
  "validate_research_quality 70 (items_of [90, 90, 85]) =
     Inr \<lparr>acceptable = True, average_confidence = 6213560110887731 / 70368744177664,
          total_sections = 3, high_confidence_count = 3,
          confidence_distribution = Some \<lparr>dist_high = 3, dist_medium = 0, dist_low = 0\<rparr>\<rparr>
   \<and> spec_mean (items_of [90, 90, 85]) = 265 / 3
   \<and> float_round (spec_mean (items_of [90, 90, 85])) = 6215905735693653 / 70368744177664
   \<and> (6213560110887731 / 70368744177664 :: rat) \<noteq> 265 / 3
   \<and> (6213560110887731 / 70368744177664 :: rat) \<noteq> 6215905735693653 / 70368744177664"
  by (simp add: validate_research_quality_def items_of_def spec_mean_def int_truediv_def
      int_to_float_def py_round1_def round_half_even_def Let_def floor_numeral_div
      float_round_265_3 float_round_883_10 float_round_3_2 float_round_numeral
      no_overflow_small)

end
